theory Spec2Isabelle
  imports Complex_Main "HOL-Library.AList"
begin

section \<open>Enhanced marketplace node: replication, failover and load balancing\<close>

text \<open>
  A shallow embedding of \<^verbatim>\<open>src/exp5_enhanced_server.py\<close>: the class
  \<^verbatim>\<open>LoadBalancer\<close> and the class \<^verbatim>\<open>EnhancedMarketplaceNode\<close>.

  Conventions of the model.
  \<^item> A Python \<^verbatim>\<open>dict\<close> is an association list in insertion order: a lookup is
    \<^const>\<open>map_of\<close>, a store is \<^const>\<open>AList.update\<close> (it overwrites in place, or
    appends a new key at the end, as a Python dict does).
  \<^item> A method that mutates \<^verbatim>\<open>self\<close> takes the object and returns the new one.
  \<^item> A raised exception is the left injection of a sum; a \<^verbatim>\<open>try/except\<close> is a
    case distinction on it.
  \<^item> Whatever the code reads from outside (clocks, the random generator, MD5, the peers'
    answers on the sockets) is read from an environment record, so that every function is
    a function of the state and of what the environment delivers.
  \<^item> Requests are typed messages: a request of kind \<^verbatim>\<open>buy\<close> carries three strings
    and an integer quantity, as the clients of this repository send them. Responses are JSON
    objects, as the code builds them field by field.
  \<^item> Python's \<^verbatim>\<open>float\<close> clock readings, response times and weights are real
    numbers here; no statement below depends on rounding.
\<close>

subsection \<open>Exceptions, JSON values, printing and parsing of integers\<close>

datatype py_error = IndexError | KeyError | ValueError | AttributeError

datatype jval =
    JNone
  | JBool bool
  | JInt int
  | JReal real
  | JStr string
  | JList "jval list"
  | JObj "(string \<times> jval) list"

type_synonym response = "(string \<times> jval) list"

definition digit_char :: "nat \<Rightarrow> char" where
  "digit_char d = ''0123456789'' ! d"

function str_nat :: "nat \<Rightarrow> string" where
  "str_nat n = (if n < 10 then [digit_char n] else str_nat (n div 10) @ [digit_char (n mod 10)])"
  by pat_completeness auto
termination
  by (relation "measure id") auto

declare str_nat.simps [simp del]

definition str_int :: "int \<Rightarrow> string" where
  \<comment> \<open>\<^verbatim>\<open>str(i)\<close>, also what an f-string prints for an integer\<close>
  "str_int i = (if i < 0 then CHR ''-'' # str_nat (nat (- i)) else str_nat (nat i))"

fun index_of :: "char \<Rightarrow> string \<Rightarrow> nat option" where
  "index_of c [] = None"
| "index_of c (x # xs) = (if c = x then Some 0 else map_option Suc (index_of c xs))"

definition digit_val :: "char \<Rightarrow> nat option" where
  "digit_val c = index_of c ''0123456789''"

definition hex_val :: "char \<Rightarrow> nat option" where
  \<comment> \<open>\<^verbatim>\<open>int(s, 16)\<close> reads the letters in either case\<close>
  "hex_val c =
     (case index_of c ''0123456789abcdef'' of
        Some d \<Rightarrow> Some d
      | None \<Rightarrow> map_option (\<lambda>i. i + 10) (index_of c ''ABCDEF''))"

fun parse_digits :: "nat \<Rightarrow> (char \<Rightarrow> nat option) \<Rightarrow> nat \<Rightarrow> string \<Rightarrow> nat option" where
  "parse_digits b dv acc [] = Some acc"
| "parse_digits b dv acc (c # cs) =
     (case dv c of None \<Rightarrow> None | Some d \<Rightarrow> parse_digits b dv (b * acc + d) cs)"

definition int_base16 :: "string \<Rightarrow> py_error + nat" where
  \<comment> \<open>\<^verbatim>\<open>int(s, 16)\<close> on a string of hexadecimal digits, which is what
      \<^verbatim>\<open>hexdigest()\<close> returns; anything else raises \<^verbatim>\<open>ValueError\<close>\<close>
  "int_base16 s =
     (if s = [] then Inl ValueError
      else case parse_digits 16 hex_val 0 s of None \<Rightarrow> Inl ValueError | Some n \<Rightarrow> Inr n)"

definition int_base10 :: "string \<Rightarrow> py_error + int" where
  \<comment> \<open>\<^verbatim>\<open>int(s)\<close> on a string of decimal digits with an optional \<^verbatim>\<open>+\<close>; the
      strings it is applied to are cut at every \<^verbatim>\<open>-\<close>, so no minus sign reaches it.
      (Python also skips surrounding blanks and single underscores between digits; the
      node names of this program, \<^verbatim>\<open>backup-<port>\<close>, contain neither.)\<close>
  "int_base10 s =
     (let t = (case s of c # cs \<Rightarrow> if c = CHR ''+'' then cs else s | [] \<Rightarrow> s)
      in if t = [] then Inl ValueError
         else case parse_digits 10 digit_val 0 t of
                None \<Rightarrow> Inl ValueError
              | Some n \<Rightarrow> Inr (int n))"

fun split_on :: "char \<Rightarrow> string \<Rightarrow> string \<Rightarrow> string list" where
  \<comment> \<open>\<^verbatim>\<open>s.split(sep)\<close> for a one-character separator; the second argument is the
      piece read so far\<close>
  "split_on sep cur [] = [cur]"
| "split_on sep cur (c # cs) =
     (if c = sep then cur # split_on sep [] cs else split_on sep (cur @ [c]) cs)"

definition last_n :: "nat \<Rightarrow> 'a list \<Rightarrow> 'a list" where
  \<comment> \<open>the slice \<^verbatim>\<open>xs[-n:]\<close> for a positive constant \<^verbatim>\<open>n\<close>\<close>
  "last_n n xs = drop (length xs - n) xs"

subsection \<open>What the environment delivers\<close>

datatype fwd_outcome =
    Timeout
      \<comment> \<open>\<^verbatim>\<open>socket.timeout\<close> while connecting, sending or receiving\<close>
  | Failed string
      \<comment> \<open>any other exception (connection refused, unparsable answer), with its text\<close>
  | Replied response
      \<comment> \<open>the backup answered with this JSON object\<close>

record env =
  now_iso :: string
    \<comment> \<open>\<^verbatim>\<open>datetime.now().isoformat()\<close>\<close>
  clock :: real
    \<comment> \<open>\<^verbatim>\<open>time.time()\<close>\<close>
  clock_str :: string
    \<comment> \<open>the same reading as an f-string prints it\<close>
  elapsed :: real
    \<comment> \<open>\<^verbatim>\<open>time.time() - start_time\<close> when a forwarded read was answered\<close>
  elapsed_except :: real
    \<comment> \<open>the same difference as the exception handler of a forwarded read reads it\<close>
  request_elapsed :: real
    \<comment> \<open>the same difference at the end of \<^verbatim>\<open>handle_client\<close>\<close>
  md5_hexdigest :: "string \<Rightarrow> string"
    \<comment> \<open>\<^verbatim>\<open>hashlib.md5(s.encode()).hexdigest()\<close>\<close>
  uniform :: "real \<Rightarrow> real \<Rightarrow> real"
    \<comment> \<open>\<^verbatim>\<open>random.uniform\<close>\<close>
  randbelow :: "nat \<Rightarrow> nat"
    \<comment> \<open>the index \<^verbatim>\<open>random.choice\<close> draws for a sequence of the given length\<close>
  forward_outcome :: fwd_outcome
    \<comment> \<open>what happens to a read forwarded to a backup\<close>
  primary_reply :: "response option"
    \<comment> \<open>the primary's answer to a forwarded write, \<open>None\<close> if the exchange raised\<close>
  heartbeat_delivered :: "int \<Rightarrow> bool"
    \<comment> \<open>whether connecting and sending a heartbeat to the backup on this port succeeded\<close>
  status_reply :: "int \<Rightarrow> response option"
    \<comment> \<open>the answer of the backup on this port to \<^verbatim>\<open>get_status\<close>, \<open>None\<close> if the
        exchange raised\<close>

subsection \<open>The class LoadBalancer\<close>

record LoadBalancer =
  current_algorithm :: string
  round_robin_index :: nat
  node_weights :: "(string \<times> real) list"
  node_connections :: "(string \<times> int) list"
  node_response_times :: "(string \<times> real list) list"
  active_nodes :: "string list"

definition algorithm_names :: "string list" where
  \<comment> \<open>the keys of \<^verbatim>\<open>self.algorithms\<close>\<close>
  "algorithm_names = [''round_robin'', ''weighted'', ''least_connections'', ''hash_based'']"

definition LoadBalancer_init :: LoadBalancer where
  "LoadBalancer_init =
     \<lparr> current_algorithm = ''round_robin'',
       round_robin_index = 0,
       node_weights = [],
       node_connections = [],
       node_response_times = [],
       active_nodes = [] \<rparr>"

definition init_weight :: "(string \<times> real) list \<Rightarrow> string \<Rightarrow> (string \<times> real) list" where
  "init_weight w node =
     (case map_of w node of None \<Rightarrow> AList.update node 1 w | Some v \<Rightarrow> w)"

definition set_active_nodes :: "LoadBalancer \<Rightarrow> string list \<Rightarrow> LoadBalancer" where
  "set_active_nodes lb nodes =
     lb\<lparr> active_nodes := nodes,
         node_weights := foldl init_weight (node_weights lb) nodes \<rparr>"

definition set_algorithm :: "LoadBalancer \<Rightarrow> string \<Rightarrow> bool \<times> LoadBalancer" where
  "set_algorithm lb algorithm =
     (if algorithm \<in> set algorithm_names
      then (True, lb\<lparr> current_algorithm := algorithm \<rparr>)
      else (False, lb))"

definition round_robin :: "LoadBalancer \<Rightarrow> py_error + (string option \<times> LoadBalancer)" where
  \<comment> \<open>the list is read at the cursor as it stands: beyond the end of the list Python raises
      \<^verbatim>\<open>IndexError\<close>\<close>
  "round_robin lb =
     (if active_nodes lb = [] then Inr (None, lb)
      else if round_robin_index lb < length (active_nodes lb)
      then Inr (Some (active_nodes lb ! round_robin_index lb),
                lb\<lparr> round_robin_index :=
                      (round_robin_index lb + 1) mod length (active_nodes lb) \<rparr>)
      else Inl IndexError)"

definition weight_of :: "LoadBalancer \<Rightarrow> string \<Rightarrow> real" where
  \<comment> \<open>\<^verbatim>\<open>self.node_weights.get(node, 1.0)\<close>\<close>
  "weight_of lb node = (case map_of (node_weights lb) node of None \<Rightarrow> 1 | Some w \<Rightarrow> w)"

fun weighted_pick :: "LoadBalancer \<Rightarrow> real \<Rightarrow> real \<Rightarrow> string list \<Rightarrow> string option" where
  "weighted_pick lb rand_val cumulative_weight [] = None"
| "weighted_pick lb rand_val cumulative_weight (node # rest) =
     (let c = cumulative_weight + weight_of lb node
      in if rand_val \<le> c then Some node else weighted_pick lb rand_val c rest)"

definition weighted_round_robin ::
  "env \<Rightarrow> LoadBalancer \<Rightarrow> py_error + (string option \<times> LoadBalancer)" where
  "weighted_round_robin e lb =
     (case active_nodes lb of
        [] \<Rightarrow> Inr (None, lb)
      | first # others \<Rightarrow>
          (let total_weight = sum_list (map (weight_of lb) (active_nodes lb));
               rand_val = uniform e 0 total_weight
           in case weighted_pick lb rand_val 0 (active_nodes lb) of
                Some node \<Rightarrow> Inr (Some node, lb)
              | None \<Rightarrow> Inr (Some first, lb)))"

definition conn_count :: "LoadBalancer \<Rightarrow> string \<Rightarrow> int" where
  \<comment> \<open>the count of a node, \<^verbatim>\<open>0\<close> for a node that has no entry\<close>
  "conn_count lb node = (case map_of (node_connections lb) node of None \<Rightarrow> 0 | Some c \<Rightarrow> c)"

definition least_connections ::
  "env \<Rightarrow> LoadBalancer \<Rightarrow> py_error + (string option \<times> LoadBalancer)" where
  \<comment> \<open>\<^verbatim>\<open>random.choice\<close> reads the candidates at the index drawn; the index is reduced
      modulo their number, which changes nothing for an index below it\<close>
  "least_connections e lb =
     (case active_nodes lb of
        [] \<Rightarrow> Inr (None, lb)
      | first # others \<Rightarrow>
          (let min_connections = foldl min (conn_count lb first) (map (conn_count lb) others);
               candidates = filter (\<lambda>node. conn_count lb node = min_connections) (active_nodes lb)
           in if candidates = [] then Inl IndexError
              else Inr (Some (candidates ! (randbelow e (length candidates) mod length candidates)),
                        lb)))"

definition hash_based ::
  "env \<Rightarrow> LoadBalancer \<Rightarrow> string option \<Rightarrow> py_error + (string option \<times> LoadBalancer)" where
  \<comment> \<open>\<^verbatim>\<open>not client_id\<close> holds for \<^verbatim>\<open>None\<close> and for the empty string\<close>
  "hash_based e lb client_id =
     (if active_nodes lb = [] \<or> client_id = None \<or> client_id = Some []
      then round_robin lb
      else case int_base16 (md5_hexdigest e (the client_id)) of
             Inl err \<Rightarrow> Inl err
           | Inr hash_val \<Rightarrow>
               Inr (Some (active_nodes lb ! (hash_val mod length (active_nodes lb))), lb))"

definition get_next_node ::
  "env \<Rightarrow> LoadBalancer \<Rightarrow> string option \<Rightarrow> py_error + (string option \<times> LoadBalancer)" where
  "get_next_node e lb client_id =
     (if active_nodes lb = [] then Inr (None, lb)
      else if current_algorithm lb = ''round_robin'' then round_robin lb
      else if current_algorithm lb = ''weighted'' then weighted_round_robin e lb
      else if current_algorithm lb = ''least_connections'' then least_connections e lb
      else if current_algorithm lb = ''hash_based'' then hash_based e lb client_id
      else Inl KeyError)"

definition update_node_metrics ::
  "LoadBalancer \<Rightarrow> string \<Rightarrow> real \<Rightarrow> bool \<Rightarrow> py_error option \<times> LoadBalancer" where
  \<comment> \<open>the last statement multiplies \<^verbatim>\<open>self.node_weights[node]\<close>, a plain dict: for a
      node without a weight it raises \<^verbatim>\<open>KeyError\<close>, after the response times were
      stored. The first component is the exception raised, if any; the second is the object
      as the call leaves it.\<close>
  "update_node_metrics lb node response_time success =
     (let old = (case map_of (node_response_times lb) node of None \<Rightarrow> [] | Some ts \<Rightarrow> ts);
          appended = old @ [response_time];
          times = (if length appended > 10 then last_n 10 appended else appended);
          lb1 = lb\<lparr> node_response_times := AList.update node times (node_response_times lb) \<rparr>;
          avg_response_time = sum_list times / real (length times);
          lb2 = (if avg_response_time > 0
                 then lb1\<lparr> node_weights := AList.update node (1 / avg_response_time) (node_weights lb1) \<rparr>
                 else lb1)
      in if success then (None, lb2)
         else case map_of (node_weights lb2) node of
                None \<Rightarrow> (Some KeyError, lb2)
              | Some w \<Rightarrow> (None, lb2\<lparr> node_weights := AList.update node (w * 0.9) (node_weights lb2) \<rparr>))"

definition increment_connections :: "LoadBalancer \<Rightarrow> string \<Rightarrow> LoadBalancer" where
  "increment_connections lb node =
     lb\<lparr> node_connections := AList.update node (conn_count lb node + 1) (node_connections lb) \<rparr>"

definition decrement_connections :: "LoadBalancer \<Rightarrow> string \<Rightarrow> LoadBalancer" where
  \<comment> \<open>reading \<^verbatim>\<open>self.node_connections[node]\<close> of a \<^verbatim>\<open>defaultdict(int)\<close> stores
      \<^verbatim>\<open>0\<close> for a node that had no entry\<close>
  "decrement_connections lb node =
     (if conn_count lb node > 0
      then lb\<lparr> node_connections := AList.update node (conn_count lb node - 1) (node_connections lb) \<rparr>
      else lb\<lparr> node_connections := AList.update node (conn_count lb node) (node_connections lb) \<rparr>)"

definition get_stats :: "LoadBalancer \<Rightarrow> response" where
  "get_stats lb =
     [(''algorithm'', JStr (current_algorithm lb)),
      (''active_nodes'', JList (map JStr (active_nodes lb))),
      (''node_weights'', JObj (map (\<lambda>(k, w). (k, JReal w)) (node_weights lb))),
      (''node_connections'', JObj (map (\<lambda>(k, c). (k, JInt c)) (node_connections lb))),
      (''node_response_times'',
         JObj (map (\<lambda>(k, ts). (k, JList (map JReal (last_n 5 ts)))) (node_response_times lb)))]"

subsection \<open>The state of a node\<close>

text \<open>
  \<^verbatim>\<open>self.inventory\<close> is \<^verbatim>\<open>{"areas": {area: {"shops": {shop: {product: quantity}}}}}\<close>.
  The two fixed keys \<^verbatim>\<open>"areas"\<close> and \<^verbatim>\<open>"shops"\<close> are left out: an inventory is
  the dict of the areas, an area is the dict of its shops, a shop is the dict of its products.
\<close>

type_synonym products = "(string \<times> int) list"
type_synonym shops = "(string \<times> products) list"
type_synonym inventory = "(string \<times> shops) list"

record transaction =
  tx_type :: string
  tx_area :: string
  tx_shop :: string
  tx_product :: string
  tx_quantity :: int
  tx_timestamp :: string
  tx_transaction_id :: string
  tx_version :: int

datatype request =
    Search string
  | Buy string string string int
  | AddStock string string string int
  | GetStatus
  | SyncRequest inventory "transaction list" int
  | Replicate transaction inventory int
  | LoadBalancerConfig string
  | LoadBalancerStats
  | Heartbeat real int string response
  | OtherRequest string

datatype thread_target =
    HeartbeatSender
  | BackupMonitor
  | LoadBalancerMonitor
  | HeartbeatMonitor
  | PerformanceMonitor
  | SendToBackup int request

datatype effect =
    StartThread thread_target
      \<comment> \<open>\<^verbatim>\<open>threading.Thread(target=..., daemon=True).start()\<close>\<close>
  | Send int request
      \<comment> \<open>a message written to the socket of the peer on this port\<close>

record node =
  node_id :: string
  port :: int
  is_primary :: bool
  is_backup :: bool
  is_active :: bool
  inventory :: inventory
  transaction_log :: "transaction list"
  version_number :: int
  last_heartbeat :: real
  load_balancer :: "LoadBalancer option"
  primary_port :: "int option"
  backup_ports :: "int list"
  primary_address :: "(string \<times> int) option"
  request_count :: int
  average_response_time :: real
  cpu_usage :: real
  memory_usage :: real

definition load_initial_data :: inventory where
  "load_initial_data =
     [(''borivali'',
        [(''Fresh_Mart'', [(''apple'', 50), (''banana'', 30), (''milk'', 25), (''bread'', 20)]),
         (''Daily_Needs'', [(''rice'', 100), (''oil'', 20), (''sugar'', 40), (''salt'', 15)])]),
      (''andheri'',
        [(''Tech_Store'', [(''laptop'', 5), (''phone'', 10), (''charger'', 50), (''headphones'', 25)]),
         (''Food_Corner'', [(''pizza'', 15), (''burger'', 20), (''fries'', 25), (''coke'', 30)])]),
      (''goregaon'',
        [(''Veggie_World'', [(''tomato'', 60), (''potato'', 80), (''onion'', 45), (''carrot'', 35)]),
         (''Bakery_House'', [(''bread'', 40), (''cake'', 8), (''cookies'', 30), (''pastry'', 12)])]),
      (''bhayandar'',
        [(''Farm_Fresh'', [(''mango'', 25), (''apple'', 30), (''banana'', 40), (''grapes'', 20)]),
         (''Kitchen_Needs'', [(''spices'', 50), (''salt'', 25), (''sugar'', 35), (''flour'', 45)])])]"

definition node_init :: "env \<Rightarrow> string \<Rightarrow> int \<Rightarrow> bool \<Rightarrow> node" where
  \<comment> \<open>\<^verbatim>\<open>__init__\<close>; the socket is not part of the state\<close>
  "node_init e nid p primary =
     \<lparr> node_id = nid,
       port = p,
       is_primary = primary,
       is_backup = (\<not> primary),
       is_active = True,
       inventory = load_initial_data,
       transaction_log = [],
       version_number = 0,
       last_heartbeat = clock e,
       load_balancer = (if primary then Some (set_active_nodes LoadBalancer_init []) else None),
       primary_port = (if primary then Some 8000 else None),
       backup_ports = (if primary then [8001, 8002] else []),
       primary_address = (if \<not> primary then Some (''localhost'', 8000) else None),
       request_count = 0,
       average_response_time = 0,
       cpu_usage = 0,
       memory_usage = 0 \<rparr>"

definition stored_quantity :: "inventory \<Rightarrow> string \<Rightarrow> string \<Rightarrow> string \<Rightarrow> int option" where
  \<comment> \<open>\<^verbatim>\<open>inventory['areas'][area]['shops'][shop][product]\<close>, \<open>None\<close> where one of the
      three keys is missing\<close>
  "stored_quantity stock area shop product =
     (case map_of stock area of
        None \<Rightarrow> None
      | Some ss \<Rightarrow>
          (case map_of ss shop of
             None \<Rightarrow> None
           | Some items \<Rightarrow> map_of items product))"

definition store_quantity :: "inventory \<Rightarrow> string \<Rightarrow> string \<Rightarrow> string \<Rightarrow> int \<Rightarrow> inventory" where
  \<comment> \<open>\<^verbatim>\<open>inventory['areas'][area]['shops'][shop][product] = q\<close>; the callers have made sure
      that the area and the shop exist\<close>
  "store_quantity stock area shop product q =
     (let ss = (case map_of stock area of None \<Rightarrow> [] | Some x \<Rightarrow> x);
          items = (case map_of ss shop of None \<Rightarrow> [] | Some x \<Rightarrow> x)
      in AList.update area (AList.update shop (AList.update product q items) ss) stock)"

definition generate_transaction_id :: "env \<Rightarrow> node \<Rightarrow> string" where
  "generate_transaction_id e n =
     take 16 (md5_hexdigest e (node_id n @ ''_'' @ clock_str e @ ''_'' @ str_int (version_number n)))"

subsection \<open>Reads\<close>

definition search_product :: "env \<Rightarrow> node \<Rightarrow> string \<Rightarrow> response" where
  "search_product e n product =
     (let results =
            concat (map (\<lambda>(area, ss).
              concat (map (\<lambda>(shop, items).
                (case map_of items product of
                   None \<Rightarrow> []
                 | Some q \<Rightarrow>
                     if q > 0
                     then [JObj [(''area'', JStr area), (''shop'', JStr shop),
                                 (''quantity'', JInt q), (''node'', JStr (node_id n))]]
                     else [])) ss)) (inventory n))
      in [(''status'', JStr ''success''),
          (''product'', JStr product),
          (''results'', JList results),
          (''timestamp'', JStr (now_iso e)),
          (''version'', JInt (version_number n)),
          (''served_by'', JStr (node_id n))])"

subsection \<open>Writes and their replication\<close>

definition forward_to_primary :: "env \<Rightarrow> request \<Rightarrow> response" where
  "forward_to_primary e req =
     (case primary_reply e of
        Some r \<Rightarrow> r
      | None \<Rightarrow> [(''status'', JStr ''error''), (''message'', JStr ''Primary node unavailable'')])"

definition replicate_to_backups :: "node \<Rightarrow> transaction \<Rightarrow> effect list" where
  "replicate_to_backups n t =
     map (\<lambda>backup_port.
            StartThread (SendToBackup backup_port (Replicate t (inventory n) (version_number n))))
         (backup_ports n)"

definition buy_product ::
  "env \<Rightarrow> node \<Rightarrow> string \<Rightarrow> string \<Rightarrow> string \<Rightarrow> int \<Rightarrow> response \<times> node \<times> effect list" where
  "buy_product e n area shop product quantity =
     (if \<not> is_primary n \<and> primary_address n \<noteq> None
      then (forward_to_primary e (Buy area shop product quantity), n, [])
      else case stored_quantity (inventory n) area shop product of
        None \<Rightarrow>
          ([(''status'', JStr ''error''),
            (''message'', JStr (''Product '' @ product @ '' not found in '' @ shop @ '', '' @ area))],
           n, [])
      | Some current_qty \<Rightarrow>
          if current_qty \<ge> quantity
          then
            (let t = \<lparr> tx_type = ''buy'', tx_area = area, tx_shop = shop, tx_product = product,
                       tx_quantity = quantity, tx_timestamp = now_iso e,
                       tx_transaction_id = generate_transaction_id e n,
                       tx_version = version_number n + 1 \<rparr>;
                 n1 = n\<lparr> inventory :=
                           store_quantity (inventory n) area shop product (current_qty - quantity),
                         version_number := version_number n + 1,
                         transaction_log := transaction_log n @ [t] \<rparr>;
                 sent = (if is_primary n1 then replicate_to_backups n1 t else [])
             in case stored_quantity (inventory n1) area shop product of
                  None \<Rightarrow>
                    ([(''status'', JStr ''error''),
                      (''message'', JStr ([CHR 0x27] @ product @ [CHR 0x27]))], n1, sent)
                | Some remaining \<Rightarrow>
                    ([(''status'', JStr ''success''),
                      (''message'', JStr (''Purchased '' @ str_int quantity @ '' '' @ product
                                           @ '' from '' @ shop)),
                      (''transaction_id'', JStr (tx_transaction_id t)),
                      (''remaining_quantity'', JInt remaining),
                      (''version'', JInt (version_number n1)),
                      (''processed_by'', JStr (node_id n1))],
                     n1, sent))
          else
            ([(''status'', JStr ''error''),
              (''message'', JStr (''Insufficient quantity. Available: '' @ str_int current_qty
                                   @ '', Requested: '' @ str_int quantity))],
             n, []))"

definition add_stock ::
  "env \<Rightarrow> node \<Rightarrow> string \<Rightarrow> string \<Rightarrow> string \<Rightarrow> int \<Rightarrow> response \<times> node \<times> effect list" where
  "add_stock e n area shop product quantity =
     (if \<not> is_primary n \<and> primary_address n \<noteq> None
      then (forward_to_primary e (AddStock area shop product quantity), n, [])
      else
        (let inv1 = (case map_of (inventory n) area of
                       None \<Rightarrow> AList.update area [] (inventory n)
                     | Some ss \<Rightarrow> inventory n);
             ss1 = (case map_of inv1 area of None \<Rightarrow> [] | Some ss \<Rightarrow> ss);
             inv2 = (case map_of ss1 shop of
                       None \<Rightarrow> AList.update area (AList.update shop [] ss1) inv1
                     | Some items \<Rightarrow> inv1);
             inv3 = (case stored_quantity inv2 area shop product of
                       Some q \<Rightarrow> store_quantity inv2 area shop product (q + quantity)
                     | None \<Rightarrow> store_quantity inv2 area shop product quantity);
             n1 = n\<lparr> inventory := inv3, version_number := version_number n + 1 \<rparr>;
             t = \<lparr> tx_type = ''add_stock'', tx_area = area, tx_shop = shop, tx_product = product,
                   tx_quantity = quantity, tx_timestamp = now_iso e,
                   tx_transaction_id = generate_transaction_id e n1,
                   tx_version = version_number n1 \<rparr>;
             n2 = n1\<lparr> transaction_log := transaction_log n1 @ [t] \<rparr>;
             sent = (if is_primary n2 then replicate_to_backups n2 t else [])
         in case stored_quantity (inventory n2) area shop product of
              None \<Rightarrow>
                ([(''status'', JStr ''error''),
                  (''message'', JStr ([CHR 0x27] @ product @ [CHR 0x27]))], n2, sent)
            | Some new_quantity \<Rightarrow>
                ([(''status'', JStr ''success''),
                  (''message'', JStr (''Added '' @ str_int quantity @ '' '' @ product
                                       @ '' to '' @ shop)),
                  (''new_quantity'', JInt new_quantity),
                  (''version'', JInt (version_number n2)),
                  (''processed_by'', JStr (node_id n2))],
                 n2, sent)))"

definition handle_replication ::
  "node \<Rightarrow> transaction \<Rightarrow> inventory \<Rightarrow> int \<Rightarrow> response \<times> node" where
  "handle_replication n t full_state new_version =
     (if is_primary n
      then ([(''status'', JStr ''error''),
             (''message'', JStr ''Primary cannot receive replication'')], n)
      else
        (let n1 = n\<lparr> inventory := full_state,
                     version_number := new_version,
                     transaction_log := transaction_log n @ [t] \<rparr>
         in ([(''status'', JStr ''success''), (''version'', JInt (version_number n1))], n1)))"

definition handle_sync_request ::
  "env \<Rightarrow> node \<Rightarrow> inventory \<Rightarrow> transaction list \<Rightarrow> int \<Rightarrow> response \<times> node" where
  "handle_sync_request e n full_state new_transactions new_version =
     (let n1 = n\<lparr> inventory := full_state,
                  version_number := new_version,
                  transaction_log := last_n 100 (transaction_log n @ new_transactions),
                  last_heartbeat := clock e \<rparr>
      in ([(''status'', JStr ''success''), (''version'', JInt (version_number n1))], n1))"

subsection \<open>Load-balanced reads\<close>

definition backup_name :: "int \<Rightarrow> string" where
  \<comment> \<open>the f-string \<^verbatim>\<open>f"backup-{port}"\<close>\<close>
  "backup_name p = ''backup-'' @ str_int p"

definition local_fallback :: "env \<Rightarrow> node \<Rightarrow> string \<Rightarrow> string \<Rightarrow> response" where
  \<comment> \<open>the local answer of the two exception handlers of \<^verbatim>\<open>forward_read_request\<close>\<close>
  "local_fallback e n product reason =
     AList.update ''fallback_reason'' (JStr reason)
       (AList.update ''load_balanced'' (JBool False) (search_product e n product))"

definition on_exception ::
  "env \<Rightarrow> node \<Rightarrow> LoadBalancer \<Rightarrow> string \<Rightarrow> string \<Rightarrow> string
     \<Rightarrow> (py_error + response) \<times> LoadBalancer" where
  \<comment> \<open>the handler \<^verbatim>\<open>except Exception as e\<close>; \<open>reason\<close> is \<^verbatim>\<open>str(e)\<close>\<close>
  "on_exception e n lb nid product reason =
     (case update_node_metrics lb nid (elapsed_except e) False of
        (Some err, lb') \<Rightarrow> (Inl err, lb')
      | (None, lb') \<Rightarrow> (Inr (local_fallback e n product reason), lb'))"

definition on_timeout ::
  "env \<Rightarrow> node \<Rightarrow> LoadBalancer \<Rightarrow> string \<Rightarrow> string \<Rightarrow> (py_error + response) \<times> LoadBalancer" where
  \<comment> \<open>the handler \<^verbatim>\<open>except socket.timeout\<close>; \<^verbatim>\<open>list.remove\<close> deletes the first
      occurrence\<close>
  "on_timeout e n lb nid product =
     (let lb' = (if nid \<in> set (active_nodes lb)
                 then lb\<lparr> active_nodes := remove1 nid (active_nodes lb) \<rparr>
                 else lb)
      in (Inr (local_fallback e n product ''backup_timeout''), lb'))"

definition forward_attempt ::
  "env \<Rightarrow> node \<Rightarrow> LoadBalancer \<Rightarrow> string \<Rightarrow> string \<Rightarrow> (py_error + response) \<times> LoadBalancer" where
  \<comment> \<open>the body of the \<^verbatim>\<open>try\<close> after the increment, with its two handlers. An
      exception of \<^verbatim>\<open>update_node_metrics\<close> inside the \<^verbatim>\<open>try\<close> is a
      \<^verbatim>\<open>KeyError\<close>, whose text is the quoted key.\<close>
  "forward_attempt e n lb nid product =
     (case forward_outcome e of
        Timeout \<Rightarrow> on_timeout e n lb nid product
      | Failed reason \<Rightarrow> on_exception e n lb nid product reason
      | Replied resp \<Rightarrow>
          (let success = (map_of resp ''status'' = Some (JStr ''success''))
           in case update_node_metrics lb nid (elapsed e) success of
                (Some err, lb') \<Rightarrow>
                  on_exception e n lb' nid product ([CHR 0x27] @ nid @ [CHR 0x27])
              | (None, lb') \<Rightarrow>
                  (Inr (AList.update ''response_time'' (JReal (elapsed e))
                         (AList.update ''served_by'' (JStr nid)
                           (AList.update ''load_balanced'' (JBool True) resp))),
                   lb')))"

definition forward_read_request ::
  "env \<Rightarrow> node \<Rightarrow> int \<Rightarrow> string \<Rightarrow> (py_error + response) \<times> node" where
  \<comment> \<open>\<open>product\<close> is the product of the search request that is forwarded. The first component
      is the response returned or the exception that leaves the function; the second is the
      node as the call leaves it, after the \<^verbatim>\<open>finally\<close> clause.\<close>
  "forward_read_request e n target_port product =
     (let nid = backup_name target_port
      in case load_balancer n of
           None \<Rightarrow> (Inl AttributeError, n)
         | Some lb \<Rightarrow>
             (let lb1 = increment_connections lb nid;
                  (result, lb2) = forward_attempt e n lb1 nid product
              in (result, n\<lparr> load_balancer := Some (decrement_connections lb2 nid) \<rparr>)))"

definition handle_load_balanced_read ::
  "env \<Rightarrow> node \<Rightarrow> string option \<Rightarrow> string \<Rightarrow> (py_error + response) \<times> node" where
  "handle_load_balanced_read e n client_id product =
     (case load_balancer n of
        None \<Rightarrow> (Inl AttributeError, n)
      | Some lb \<Rightarrow>
          (case get_next_node e lb client_id of
             Inl err \<Rightarrow> (Inl err, n)
           | Inr (selected, lb') \<Rightarrow>
               (let n1 = n\<lparr> load_balancer := Some lb' \<rparr>
                in case selected of
                     None \<Rightarrow> (Inr (search_product e n1 product), n1)
                   | Some selected_node \<Rightarrow>
                       if selected_node = [] then (Inr (search_product e n1 product), n1)
                       else
                         (let parts = split_on (CHR ''-'') [] selected_node
                          in if length parts < 2 then (Inr (search_product e n1 product), n1)
                             else case int_base10 (parts ! 1) of
                                    Inl err \<Rightarrow> (Inr (search_product e n1 product), n1)
                                  | Inr p \<Rightarrow>
                                      (case forward_read_request e n1 p product of
                                         (Inl err, n2) \<Rightarrow>
                                           if err = ValueError \<or> err = IndexError
                                           then (Inr (search_product e n2 product), n2)
                                           else (Inl err, n2)
                                       | (Inr resp, n2) \<Rightarrow> (Inr resp, n2))))))"

subsection \<open>Configuration, status and metrics\<close>

definition configure_load_balancer :: "node \<Rightarrow> string \<Rightarrow> response \<times> node" where
  "configure_load_balancer n algorithm =
     (case load_balancer n of
        None \<Rightarrow> ([(''status'', JStr ''error''), (''message'', JStr ''Load balancer not available'')], n)
      | Some lb \<Rightarrow>
          if \<not> is_primary n
          then ([(''status'', JStr ''error''), (''message'', JStr ''Load balancer not available'')], n)
          else
            (case set_algorithm lb algorithm of
               (True, lb') \<Rightarrow>
                 ([(''status'', JStr ''success''),
                   (''message'', JStr (''Load balancing algorithm set to '' @ algorithm)),
                   (''available_algorithms'', JList (map JStr algorithm_names))],
                  n\<lparr> load_balancer := Some lb' \<rparr>)
             | (False, lb') \<Rightarrow>
                 ([(''status'', JStr ''error''),
                   (''message'', JStr (''Invalid algorithm: '' @ algorithm)),
                   (''available_algorithms'', JList (map JStr algorithm_names))],
                  n\<lparr> load_balancer := Some lb' \<rparr>)))"

definition get_load_balancer_stats :: "node \<Rightarrow> response" where
  "get_load_balancer_stats n =
     (case load_balancer n of
        None \<Rightarrow> [(''status'', JStr ''error''), (''message'', JStr ''Load balancer not available'')]
      | Some lb \<Rightarrow>
          if \<not> is_primary n
          then [(''status'', JStr ''error''), (''message'', JStr ''Load balancer not available'')]
          else AList.update ''status'' (JStr ''success'') (get_stats lb))"

definition get_node_status :: "env \<Rightarrow> node \<Rightarrow> response" where
  "get_node_status e n =
     (let status =
            [(''status'', JStr ''success''),
             (''node_id'', JStr (node_id n)),
             (''port'', JInt (port n)),
             (''is_primary'', JBool (is_primary n)),
             (''version'', JInt (version_number n)),
             (''transaction_count'', JInt (int (length (transaction_log n)))),
             (''last_heartbeat'', JReal (last_heartbeat n)),
             (''timestamp'', JReal (clock e)),
             (''request_count'', JInt (request_count n)),
             (''average_response_time'', JReal (average_response_time n)),
             (''cpu_usage'', JReal (cpu_usage n)),
             (''memory_usage'', JReal (memory_usage n))]
      in case load_balancer n of
           None \<Rightarrow> status
         | Some lb \<Rightarrow>
             if is_primary n then AList.update ''load_balancer'' (JObj (get_stats lb)) status
             else status)"

definition update_metrics :: "node \<Rightarrow> real \<Rightarrow> bool \<Rightarrow> node" where
  "update_metrics n response_time success =
     n\<lparr> request_count := request_count n + 1,
        average_response_time :=
          (if average_response_time n = 0 then response_time
           else 0.1 * response_time + (1 - 0.1) * average_response_time n) \<rparr>"

subsection \<open>Dispatch of a request\<close>

definition invalid_request :: response where
  "invalid_request = [(''status'', JStr ''error''), (''message'', JStr ''Invalid request type'')]"

definition process_request ::
  "env \<Rightarrow> node \<Rightarrow> string option \<Rightarrow> request \<Rightarrow> (py_error + response) \<times> node \<times> effect list" where
  "process_request e n client_id req =
     (case req of
        Search product \<Rightarrow>
          if is_primary n \<and> load_balancer n \<noteq> None
          then (case handle_load_balanced_read e n client_id product of (r, n') \<Rightarrow> (r, n', []))
          else (Inr (search_product e n product), n, [])
      | Buy area shop product quantity \<Rightarrow>
          (case buy_product e n area shop product quantity of (r, n', eff) \<Rightarrow> (Inr r, n', eff))
      | AddStock area shop product quantity \<Rightarrow>
          (case add_stock e n area shop product quantity of (r, n', eff) \<Rightarrow> (Inr r, n', eff))
      | GetStatus \<Rightarrow> (Inr (get_node_status e n), n, [])
      | SyncRequest full_state new_transactions new_version \<Rightarrow>
          (case handle_sync_request e n full_state new_transactions new_version of
             (r, n') \<Rightarrow> (Inr r, n', []))
      | Replicate t full_state new_version \<Rightarrow>
          (case handle_replication n t full_state new_version of (r, n') \<Rightarrow> (Inr r, n', []))
      | LoadBalancerConfig algorithm \<Rightarrow>
          (case configure_load_balancer n algorithm of (r, n') \<Rightarrow> (Inr r, n', []))
      | LoadBalancerStats \<Rightarrow> (Inr (get_load_balancer_stats n), n, [])
      | Heartbeat ts v pid stats \<Rightarrow> (Inr invalid_request, n, [])
      | OtherRequest ty \<Rightarrow> (Inr invalid_request, n, []))"

definition handle_client ::
  "env \<Rightarrow> node \<Rightarrow> string \<times> int \<Rightarrow> request \<Rightarrow> response option \<times> node \<times> effect list" where
  \<comment> \<open>an exception of \<^verbatim>\<open>process_request\<close> is logged and the socket is closed without an
      answer: the response is \<open>None\<close>\<close>
  "handle_client e n client_address req =
     (let client_id = fst client_address @ '':'' @ str_int (snd client_address)
      in case process_request e n (Some client_id) req of
           (Inl err, n', eff) \<Rightarrow> (None, n', eff)
         | (Inr resp, n', eff) \<Rightarrow>
             (Some resp,
              update_metrics n' (request_elapsed e) (map_of resp ''status'' = Some (JStr ''success'')),
              eff))"

subsection \<open>Failover and the background loops, one iteration at a time\<close>

definition initiate_failover :: "node \<Rightarrow> node \<times> effect list" where
  "initiate_failover n =
     (let new_backup_ports = filter (\<lambda>p. p \<noteq> port n) [8001, 8002];
          backup_nodes = map backup_name new_backup_ports
      in (n\<lparr> is_primary := True,
              is_backup := False,
              primary_port := Some (port n),
              backup_ports := new_backup_ports,
              load_balancer := Some (set_active_nodes LoadBalancer_init backup_nodes) \<rparr>,
          [StartThread HeartbeatSender, StartThread BackupMonitor,
           StartThread LoadBalancerMonitor]))"

definition heartbeat_monitor_step :: "env \<Rightarrow> node \<Rightarrow> node \<times> effect list" where
  \<comment> \<open>one test of the loop condition and one pass through the body; the loop ends after a
      failover\<close>
  "heartbeat_monitor_step e n =
     (if is_active n \<and> \<not> is_primary n
      then (if clock e - last_heartbeat n > 10 then initiate_failover n else (n, []))
      else (n, []))"

definition heartbeat_sender_step :: "env \<Rightarrow> node \<Rightarrow> node \<times> effect list" where
  "heartbeat_sender_step e n =
     (if is_active n \<and> is_primary n
      then
        (let heartbeat_message =
               Heartbeat (clock e) (version_number n) (node_id n)
                 (case load_balancer n of None \<Rightarrow> [] | Some lb \<Rightarrow> get_stats lb);
             reached = filter (heartbeat_delivered e) (backup_ports n);
             active_backups = map backup_name reached
         in (n\<lparr> load_balancer :=
                   map_option (\<lambda>lb. set_active_nodes lb active_backups) (load_balancer n) \<rparr>,
             map (\<lambda>p. Send p heartbeat_message) reached))
      else (n, []))"

definition lagging :: "response \<Rightarrow> int \<Rightarrow> bool" where
  \<comment> \<open>\<^verbatim>\<open>status.get('version', 0) < self.version_number\<close>; a version that is no number
      raises, which the loop catches\<close>
  "lagging status v =
     (case map_of status ''version'' of
        None \<Rightarrow> 0 < v
      | Some (JInt x) \<Rightarrow> x < v
      | Some (JReal x) \<Rightarrow> x < real_of_int v
      | Some (JBool b) \<Rightarrow> (if b then 1 else 0) < v
      | Some other \<Rightarrow> False)"

definition sync_backup :: "node \<Rightarrow> int \<Rightarrow> effect" where
  "sync_backup n backup_port =
     Send backup_port
       (SyncRequest (inventory n) (last_n 50 (transaction_log n)) (version_number n))"

definition backup_monitor_step :: "env \<Rightarrow> node \<Rightarrow> node \<times> effect list" where
  "backup_monitor_step e n =
     (if is_active n \<and> is_primary n
      then
        (let responsive = filter (\<lambda>p. status_reply e p \<noteq> None) (backup_ports n);
             active = map backup_name responsive;
             behind = filter (\<lambda>p. case status_reply e p of
                                      None \<Rightarrow> False
                                    | Some status \<Rightarrow> lagging status (version_number n))
                             (backup_ports n)
         in (n\<lparr> load_balancer := map_option (\<lambda>lb. set_active_nodes lb active) (load_balancer n) \<rparr>,
             map (sync_backup n) behind))
      else (n, []))"

definition load_balancer_monitor_step :: "node \<Rightarrow> node" where
  "load_balancer_monitor_step n =
     (case load_balancer n of
        None \<Rightarrow> n
      | Some lb \<Rightarrow>
          if is_active n \<and> is_primary n
          then
            (let lens = map (\<lambda>(k, ts). length (last_n 5 ts)) (node_response_times lb)
             in if length (active_nodes lb) > 1 \<and> node_response_times lb \<noteq> []
                   \<and> length (remdups lens) > 1 \<and> current_algorithm lb = ''round_robin''
                then n\<lparr> load_balancer := Some (snd (set_algorithm lb ''weighted'')) \<rparr>
                else n)
          else n)"

definition performance_monitor_step :: "env \<Rightarrow> node \<Rightarrow> node" where
  "performance_monitor_step e n =
     (if is_active n \<and> \<not> is_primary n
      then n\<lparr> cpu_usage := uniform e 10 90, memory_usage := uniform e 20 80 \<rparr>
      else n)"

definition shutdown :: "node \<Rightarrow> node" where
  "shutdown n = n\<lparr> is_active := False \<rparr>"

definition start_server :: "node \<Rightarrow> effect list" where
  \<comment> \<open>the background threads started before the accept loop\<close>
  "start_server n =
     (if is_primary n
      then [StartThread HeartbeatSender, StartThread BackupMonitor, StartThread LoadBalancerMonitor]
      else [StartThread HeartbeatMonitor, StartThread PerformanceMonitor])"

text \<open>
  The threads of a node take turns on its state: one step is one request handled to its end
  or one iteration of a background loop, for whatever the environment delivers.
\<close>

inductive node_step :: "node \<Rightarrow> node \<Rightarrow> bool" where
  step_client: "node_step n (fst (snd (handle_client e n client_address req)))"
| step_heartbeat_monitor: "node_step n (fst (heartbeat_monitor_step e n))"
| step_heartbeat_sender: "node_step n (fst (heartbeat_sender_step e n))"
| step_backup_monitor: "node_step n (fst (backup_monitor_step e n))"
| step_load_balancer_monitor: "node_step n (load_balancer_monitor_step n)"
| step_performance_monitor: "node_step n (performance_monitor_step e n)"
| step_shutdown: "node_step n (shutdown n)"

subsection \<open>Runs of requests\<close>

fun is_mutation :: "request \<Rightarrow> bool" where
  "is_mutation (Buy area shop product quantity) = True"
| "is_mutation (AddStock area shop product quantity) = True"
| "is_mutation other = False"

definition committed :: "py_error + response \<Rightarrow> bool" where
  \<comment> \<open>the request was answered with status \<^verbatim>\<open>success\<close>\<close>
  "committed r =
     (case r of
        Inl err \<Rightarrow> False
      | Inr resp \<Rightarrow> map_of resp ''status'' = Some (JStr ''success''))"

definition applies_locally :: "node \<Rightarrow> bool" where
  \<comment> \<open>the negation of the test by which \<^verbatim>\<open>buy_product\<close> and \<^verbatim>\<open>add_stock\<close>
      forward a write to the primary\<close>
  "applies_locally n = (is_primary n \<or> primary_address n = None)"

fun run_requests :: "node \<Rightarrow> (env \<times> request) list \<Rightarrow> node" where
  "run_requests n [] = n"
| "run_requests n ((e, req) # rest) =
     run_requests (fst (snd (process_request e n None req))) rest"

fun count_committed :: "node \<Rightarrow> (env \<times> request) list \<Rightarrow> nat" where
  "count_committed n [] = 0"
| "count_committed n ((e, req) # rest) =
     (if committed (fst (process_request e n None req)) then 1 else 0)
       + count_committed (fst (snd (process_request e n None req))) rest"

subsection \<open>Sequences of calls on the connection counts\<close>

datatype conn_call = Increment string | Decrement string

fun apply_calls :: "LoadBalancer \<Rightarrow> conn_call list \<Rightarrow> LoadBalancer" where
  "apply_calls lb [] = lb"
| "apply_calls lb (Increment node # rest) = apply_calls (increment_connections lb node) rest"
| "apply_calls lb (Decrement node # rest) = apply_calls (decrement_connections lb node) rest"

fun rr_run :: "nat \<Rightarrow> LoadBalancer \<Rightarrow> string list" where
  \<comment> \<open>the nodes returned by successive \<^verbatim>\<open>round_robin\<close> calls, up to the first call that
      returns no node or raises\<close>
  "rr_run 0 lb = []"
| "rr_run (Suc k) lb =
     (case round_robin lb of
        Inr (Some node, lb') \<Rightarrow> node # rr_run k lb'
      | Inr (None, lb') \<Rightarrow> []
      | Inl err \<Rightarrow> [])"

subsection \<open>Concrete environments and states for the examples\<close>

definition env0 :: env where
  \<comment> \<open>an environment in which every peer refuses the connection\<close>
  "env0 =
     \<lparr> now_iso = ''2024-01-01T00:00:00'',
       clock = 100,
       clock_str = ''100.0'',
       elapsed = 1 / 2,
       elapsed_except = 1 / 2,
       request_elapsed = 1,
       md5_hexdigest = (\<lambda>s. ''0123456789abcdef0123456789abcdef''),
       uniform = (\<lambda>a b. a),
       randbelow = (\<lambda>k. 0),
       forward_outcome = Failed ''[Errno 111] Connection refused'',
       primary_reply = None,
       heartbeat_delivered = (\<lambda>p. False),
       status_reply = (\<lambda>p. None) \<rparr>"

definition tx0 :: transaction where
  "tx0 = \<lparr> tx_type = ''buy'', tx_area = ''andheri'', tx_shop = ''Tech_Store'',
           tx_product = ''laptop'', tx_quantity = 1, tx_timestamp = ''2024-01-01T00:00:00'',
           tx_transaction_id = ''0123456789abcdef'', tx_version = 5 \<rparr>"

definition primary0 :: node where
  \<comment> \<open>\<^verbatim>\<open>EnhancedMarketplaceNode("node1", 8000, True)\<close>\<close>
  "primary0 = node_init env0 ''node1'' 8000 True"

definition backup0 :: node where
  \<comment> \<open>\<^verbatim>\<open>EnhancedMarketplaceNode("node2", 8001, False)\<close>\<close>
  "backup0 = node_init env0 ''node2'' 8001 False"

definition backup_at_5 :: node where
  \<comment> \<open>the backup after a replication message of version 5\<close>
  "backup_at_5 = snd (handle_replication backup0 tx0 load_initial_data 5)"

definition scenario0 :: node where
  \<comment> \<open>a primary that holds nothing but the quantity 10 under the key (A, S, p)\<close>
  "scenario0 = primary0\<lparr> inventory := [(''A'', [(''S'', [(''p'', 10)])])] \<rparr>"

definition reqs0 :: "(env \<times> request) list" where
  "reqs0 = [(env0, Buy ''A'' ''S'' ''p'' 4), (env0, Buy ''A'' ''S'' ''p'' 10)]"

definition lb_two :: LoadBalancer where
  \<comment> \<open>a fresh load balancer told that both backups are active\<close>
  "lb_two = set_active_nodes LoadBalancer_init [''backup-8001'', ''backup-8002'']"

definition env_up :: env where
  \<comment> \<open>both backups take the heartbeat\<close>
  "env_up = env0\<lparr> heartbeat_delivered := (\<lambda>p. True) \<rparr>"

definition env_one :: env where
  \<comment> \<open>only the backup on port 8001 takes the heartbeat\<close>
  "env_one = env0\<lparr> heartbeat_delivered := (\<lambda>p. p = 8001) \<rparr>"

definition primary_two :: node where
  \<comment> \<open>the primary after a heartbeat round that reached both backups\<close>
  "primary_two = fst (heartbeat_sender_step env_up primary0)"

definition primary_read :: node where
  \<comment> \<open>then one search request was handled\<close>
  "primary_read =
     fst (snd (handle_client env0 primary_two (''127.0.0.1'', 5000) (Search ''apple'')))"

definition primary_shrunk :: node where
  \<comment> \<open>then a heartbeat round reached the backup on port 8001 only\<close>
  "primary_shrunk = fst (heartbeat_sender_step env_one primary_read)"

definition env_timeout :: env where
  \<comment> \<open>a forwarded read runs into \<^verbatim>\<open>socket.timeout\<close>\<close>
  "env_timeout = env0\<lparr> forward_outcome := Timeout \<rparr>"

definition promoted :: node where
  \<comment> \<open>the backup on port 8001 after the heartbeat monitor found the last heartbeat 100
      seconds old\<close>
  "promoted = fst (heartbeat_monitor_step (env0\<lparr> clock := 200 \<rparr>) backup0)"

definition promoted_next :: node where
  \<comment> \<open>then a replication message reached it\<close>
  "promoted_next =
     fst (snd (handle_client env0 promoted (''127.0.0.1'', 5000) (Replicate tx0 [] 3)))"

section \<open>Replication messages\<close>

lemma primary0_is_primary: "is_primary primary0"
  by (simp add: primary0_def node_init_def)

lemma backup0_not_primary: "\<not> is_primary backup0"
  by (simp add: backup0_def node_init_def)

lemma backup_at_5_not_primary: "\<not> is_primary backup_at_5"
  by (simp add: backup_at_5_def handle_replication_def backup0_not_primary)

lemma backup_at_5_version: "version_number backup_at_5 = 5"
  by (simp add: backup_at_5_def handle_replication_def backup0_not_primary)

text \<open>
  C10. A node in the Primary role answers a \<^verbatim>\<open>replicate\<close> message with status
  \<^verbatim>\<open>error\<close> and the message \<^verbatim>\<open>Primary cannot receive replication\<close>, and the node
  (its inventory, version number and transaction log included) is left as it was; this holds
  for the handler and for the dispatcher that calls it.
\<close>

theorem primary_rejects_replication:
  "is_primary n \<Longrightarrow>
     handle_replication n t full_state new_version =
       ([(''status'', JStr ''error''),
         (''message'', JStr ''Primary cannot receive replication'')], n)
     \<and> process_request e n client_id (Replicate t full_state new_version) =
       (Inr [(''status'', JStr ''error''),
             (''message'', JStr ''Primary cannot receive replication'')], n, [])"
  by (simp add: handle_replication_def process_request_def)

theorem primary_rejects_replication_witness:
  "is_primary primary0
     \<and> handle_replication primary0 tx0 [] 5 =
       ([(''status'', JStr ''error''),
         (''message'', JStr ''Primary cannot receive replication'')], primary0)
     \<and> process_request env0 primary0 None (Replicate tx0 [] 5) =
       (Inr [(''status'', JStr ''error''),
             (''message'', JStr ''Primary cannot receive replication'')], primary0, [])"
  using primary_rejects_replication [of primary0 tx0 "[]" 5 env0 None] primary0_is_primary
  by simp

text \<open>
  C1, as stated, fails: a backup that holds version 5 and receives a \<^verbatim>\<open>replicate\<close>
  or a \<^verbatim>\<open>sync_request\<close> message of version 3 installs the pushed inventory and the
  version 3, and its transaction log changes.
\<close>

theorem stale_push_is_installed:
  "\<not> is_primary backup_at_5 \<and> version_number backup_at_5 = 5
     \<and> version_number (snd (handle_replication backup_at_5 tx0 [] 3)) = 3
     \<and> inventory (snd (handle_replication backup_at_5 tx0 [] 3)) = []
     \<and> inventory backup_at_5 = load_initial_data
     \<and> transaction_log (snd (handle_replication backup_at_5 tx0 [] 3)) = [tx0, tx0]
     \<and> transaction_log backup_at_5 = [tx0]
     \<and> version_number (snd (handle_sync_request env0 backup_at_5 [] [tx0] 3)) = 3
     \<and> inventory (snd (handle_sync_request env0 backup_at_5 [] [tx0] 3)) = []
     \<and> transaction_log (snd (handle_sync_request env0 backup_at_5 [] [tx0] 3)) = [tx0, tx0]"
  by (simp add: backup_at_5_def handle_replication_def handle_sync_request_def
        backup0_not_primary last_n_def)
    (simp add: backup0_def node_init_def)

text \<open>
  C1, amended. A node in the Backup role that handles a \<^verbatim>\<open>replicate\<close> message
  installs the pushed inventory and the pushed version, whatever the version it holds,
  appends the pushed transaction to its log and answers with status \<^verbatim>\<open>success\<close>;
  a \<^verbatim>\<open>sync_request\<close> message is handled likewise, the log being extended by the
  pushed transactions and cut to its last 100 entries. No version is compared.
\<close>

theorem backup_installs_pushed_version:
  "\<not> is_primary n \<Longrightarrow>
     handle_replication n t full_state new_version =
       ([(''status'', JStr ''success''), (''version'', JInt new_version)],
        n\<lparr> inventory := full_state, version_number := new_version,
           transaction_log := transaction_log n @ [t] \<rparr>)
     \<and> handle_sync_request e n full_state new_transactions new_version =
       ([(''status'', JStr ''success''), (''version'', JInt new_version)],
        n\<lparr> inventory := full_state, version_number := new_version,
           transaction_log := last_n 100 (transaction_log n @ new_transactions),
           last_heartbeat := clock e \<rparr>)"
  by (simp add: handle_replication_def handle_sync_request_def)

theorem backup_installs_pushed_version_witness:
  "\<not> is_primary backup_at_5
     \<and> handle_replication backup_at_5 tx0 [] 3 =
       ([(''status'', JStr ''success''), (''version'', JInt 3)],
        backup_at_5\<lparr> inventory := [], version_number := 3,
           transaction_log := transaction_log backup_at_5 @ [tx0] \<rparr>)
     \<and> handle_sync_request env0 backup_at_5 [] [tx0] 3 =
       ([(''status'', JStr ''success''), (''version'', JInt 3)],
        backup_at_5\<lparr> inventory := [], version_number := 3,
           transaction_log := last_n 100 (transaction_log backup_at_5 @ [tx0]),
           last_heartbeat := clock env0 \<rparr>)"
  using backup_installs_pushed_version [of backup_at_5 tx0 "[]" 3 env0 "[tx0]"]
    backup_at_5_not_primary
  by simp

section \<open>Writes applied on the primary\<close>

lemma stored_store [simp]:
  "stored_quantity (store_quantity stock area shop product q) area shop product = Some q"
  by (simp add: stored_quantity_def store_quantity_def Let_def update_conv')

lemma primary0_laptops:
  "stored_quantity (inventory primary0) ''andheri'' ''Tech_Store'' ''laptop'' = Some 5"
  by (simp add: primary0_def node_init_def load_initial_data_def stored_quantity_def)

text \<open>
  C2. On a primary that stores the quantity \<open>current_qty\<close> under the key
  (area, shop, product): a buy of more than \<open>current_qty\<close> is answered with status
  \<^verbatim>\<open>error\<close> and leaves the node as it was (quantity, version number and transaction
  log included); a buy of at most \<open>current_qty\<close> is answered with status
  \<^verbatim>\<open>success\<close>, the stored quantity becomes \<open>current_qty - quantity\<close>, which is not
  negative, and \<^verbatim>\<open>remaining_quantity\<close> in the response is that new stored quantity.
\<close>

theorem buy_on_primary:
  "is_primary n \<Longrightarrow> stored_quantity (inventory n) area shop product = Some current_qty \<Longrightarrow>
     (current_qty < quantity \<longrightarrow>
        (case buy_product e n area shop product quantity of
           (r, n', eff) \<Rightarrow> map_of r ''status'' = Some (JStr ''error'') \<and> n' = n))
     \<and> (quantity \<le> current_qty \<longrightarrow>
        (case buy_product e n area shop product quantity of
           (r, n', eff) \<Rightarrow>
             map_of r ''status'' = Some (JStr ''success'')
             \<and> stored_quantity (inventory n') area shop product = Some (current_qty - quantity)
             \<and> 0 \<le> current_qty - quantity
             \<and> map_of r ''remaining_quantity'' = Some (JInt (current_qty - quantity))))"
  by (simp add: buy_product_def Let_def)

theorem buy_on_primary_witness:
  "is_primary primary0
   \<and> stored_quantity (inventory primary0) ''andheri'' ''Tech_Store'' ''laptop'' = Some 5
   \<and> (case buy_product env0 primary0 ''andheri'' ''Tech_Store'' ''laptop'' 7 of
           (r, n', eff) \<Rightarrow> map_of r ''status'' = Some (JStr ''error'') \<and> n' = primary0)
   \<and> (case buy_product env0 primary0 ''andheri'' ''Tech_Store'' ''laptop'' 2 of
           (r, n', eff) \<Rightarrow>
             map_of r ''status'' = Some (JStr ''success'')
             \<and> stored_quantity (inventory n') ''andheri'' ''Tech_Store'' ''laptop'' = Some 3
             \<and> map_of r ''remaining_quantity'' = Some (JInt 3))"
  using buy_on_primary [OF primary0_is_primary primary0_laptops, of 7 env0]
    buy_on_primary [OF primary0_is_primary primary0_laptops, of 2 env0]
    primary0_is_primary primary0_laptops
  by simp

lemma buy_version:
  "applies_locally n \<Longrightarrow> buy_product e n area shop product quantity = (r, n', eff) \<Longrightarrow>
     version_number n' =
       version_number n + (if map_of r ''status'' = Some (JStr ''success'') then 1 else 0)
     \<and> is_primary n' = is_primary n \<and> primary_address n' = primary_address n"
  by (auto simp: buy_product_def Let_def applies_locally_def split: option.splits if_splits)

lemma add_stock_version:
  "applies_locally n \<Longrightarrow> add_stock e n area shop product quantity = (r, n', eff) \<Longrightarrow>
     version_number n' = version_number n + 1 \<and> map_of r ''status'' = Some (JStr ''success'')
     \<and> is_primary n' = is_primary n \<and> primary_address n' = primary_address n"
  by (auto simp: add_stock_def Let_def applies_locally_def split: option.splits if_splits)

lemma mutation_version:
  assumes "applies_locally n" "is_mutation req"
  shows "version_number (fst (snd (process_request e n cid req))) =
           version_number n + (if committed (fst (process_request e n cid req)) then 1 else 0)
         \<and> applies_locally (fst (snd (process_request e n cid req)))"
proof (cases req)
  case (Buy area shop product quantity)
  obtain r n' eff where b: "buy_product e n area shop product quantity = (r, n', eff)"
    by (cases "buy_product e n area shop product quantity") auto
  from buy_version [OF assms(1) b] show ?thesis
    using Buy b assms(1) by (simp add: process_request_def committed_def applies_locally_def)
next
  case (AddStock area shop product quantity)
  obtain r n' eff where b: "add_stock e n area shop product quantity = (r, n', eff)"
    by (cases "add_stock e n area shop product quantity") auto
  from add_stock_version [OF assms(1) b] show ?thesis
    using AddStock b assms(1) by (simp add: process_request_def committed_def applies_locally_def)
qed (use assms(2) in simp_all)

lemma run_version:
  "applies_locally n \<Longrightarrow> list_all (\<lambda>x. is_mutation (snd x)) reqs \<Longrightarrow>
     version_number (run_requests n reqs) = version_number n + int (count_committed n reqs)"
proof (induction reqs arbitrary: n)
  case Nil
  then show ?case by simp
next
  case (Cons x reqs)
  obtain e req where x: "x = (e, req)" by (cases x)
  from Cons.prems x have m: "is_mutation req" and rest: "list_all (\<lambda>x. is_mutation (snd x)) reqs"
    by simp_all
  note st = mutation_version [OF Cons.prems(1) m, of e None]
  from Cons.IH [OF conjunct2 [OF st] rest] st show ?case
    by (simp add: x)
qed

text \<open>
  C3. On a node that applies writes itself, a buy or add_stock request answered with status
  \<^verbatim>\<open>success\<close> raises the version number by exactly one and any other answer leaves
  it as it was; so after any sequence of such requests the version number is the one before
  plus the number of requests answered with \<^verbatim>\<open>success\<close>, and it never went down.
\<close>

theorem version_counts_commits:
  "applies_locally n \<Longrightarrow> is_mutation req \<Longrightarrow> list_all (\<lambda>x. is_mutation (snd x)) reqs \<Longrightarrow>
     version_number (fst (snd (process_request e n cid req))) =
       version_number n + (if committed (fst (process_request e n cid req)) then 1 else 0)
     \<and> version_number (run_requests n reqs) = version_number n + int (count_committed n reqs)
     \<and> version_number n \<le> version_number (run_requests n reqs)"
  using mutation_version [of n req e cid] run_version [of n reqs] by simp

lemma scenario0_local: "applies_locally scenario0"
  by (simp add: applies_locally_def scenario0_def primary0_is_primary)

lemma scenario0_fields:
  "is_primary scenario0" "version_number scenario0 = 0"
  "inventory scenario0 = [(''A'', [(''S'', [(''p'', 10)])])]"
  by (simp_all add: scenario0_def primary0_def node_init_def)

lemma scenario0_first:
  "process_request env0 scenario0 None (Buy ''A'' ''S'' ''p'' 4) = (r, n', eff) \<Longrightarrow>
     committed r \<and> is_primary n' \<and> inventory n' = [(''A'', [(''S'', [(''p'', 6)])])]"
  by (auto simp add: process_request_def buy_product_def Let_def scenario0_fields
        stored_quantity_def store_quantity_def committed_def)

lemma scenario0_second:
  "is_primary n \<Longrightarrow> inventory n = [(''A'', [(''S'', [(''p'', 6)])])] \<Longrightarrow>
     \<not> committed (fst (process_request e n None (Buy ''A'' ''S'' ''p'' 10)))"
  by (simp add: process_request_def buy_product_def Let_def stored_quantity_def committed_def)

lemma scenario0_count: "count_committed scenario0 reqs0 = 1"
proof -
  obtain r n' eff
    where p: "process_request env0 scenario0 None (Buy ''A'' ''S'' ''p'' 4) = (r, n', eff)"
    by (cases "process_request env0 scenario0 None (Buy ''A'' ''S'' ''p'' 4)") auto
  from scenario0_first [OF p] scenario0_second [of n' env0] show ?thesis
    by (simp add: reqs0_def p)
qed

theorem version_counts_commits_witness:
  "applies_locally scenario0
   \<and> is_mutation (Buy ''A'' ''S'' ''p'' 4)
   \<and> list_all (\<lambda>x. is_mutation (snd x)) reqs0
   \<and> committed (fst (process_request env0 scenario0 None (Buy ''A'' ''S'' ''p'' 4)))
   \<and> version_number (fst (snd (process_request env0 scenario0 None (Buy ''A'' ''S'' ''p'' 4)))) = 1
   \<and> count_committed scenario0 reqs0 = 1
   \<and> version_number (run_requests scenario0 reqs0) = 1"
proof -
  have m: "list_all (\<lambda>x. is_mutation (snd x)) reqs0"
    by (simp add: reqs0_def)
  obtain r n' eff
    where p: "process_request env0 scenario0 None (Buy ''A'' ''S'' ''p'' 4) = (r, n', eff)"
    by (cases "process_request env0 scenario0 None (Buy ''A'' ''S'' ''p'' 4)") auto
  have c: "committed (fst (process_request env0 scenario0 None (Buy ''A'' ''S'' ''p'' 4)))"
    using scenario0_first [OF p] by (simp add: p)
  show ?thesis
    using version_counts_commits [OF scenario0_local _ m, of "Buy ''A'' ''S'' ''p'' 4" env0 None]
      scenario0_local m c scenario0_count scenario0_fields(2)
    by simp
qed

section \<open>Failover\<close>

lemma backup_name_8001: "backup_name 8001 = ''backup-8001''"
  by (simp add: backup_name_def str_int_def str_nat.simps digit_char_def)

lemma backup_name_8002: "backup_name 8002 = ''backup-8002''"
  by (simp add: backup_name_def str_int_def str_nat.simps digit_char_def)

lemma backup0_fields:
  "is_active backup0" "port backup0 = 8001" "last_heartbeat backup0 = 100"
  "load_balancer backup0 = None"
  by (simp_all add: backup0_def node_init_def env0_def)

text \<open>
  C4, as stated, fails in one point: the load balancer that the failover creates does not
  have an empty active set. The backup on port 8001, whose last heartbeat is 100 seconds
  old, promotes itself and its new load balancer has the active set \<^verbatim>\<open>["backup-8002"]\<close>.
\<close>

theorem failover_active_set_not_empty:
  "is_active backup0 \<and> \<not> is_primary backup0
   \<and> clock (env0\<lparr> clock := 200 \<rparr>) - last_heartbeat backup0 > 10
   \<and> heartbeat_monitor_step (env0\<lparr> clock := 200 \<rparr>) backup0 = initiate_failover backup0
   \<and> map_option active_nodes (load_balancer (fst (initiate_failover backup0)))
       = Some [''backup-8002'']"
  by (simp add: heartbeat_monitor_step_def backup0_fields backup0_not_primary
        initiate_failover_def set_active_nodes_def backup_name_8002)

text \<open>
  C4, amended. On an active backup whose last heartbeat is more than 10 seconds old, one
  iteration of the heartbeat monitor is the failover. The failover sets the role to Primary,
  takes as backup ports the ports of 8001 and 8002 other than the node's own, creates a fresh
  load balancer (algorithm \<^verbatim>\<open>round_robin\<close>, cursor 0, no connection counts) and sets its
  active set to the names \<^verbatim>\<open>backup-<port>\<close> of these backup ports, and starts the
  heartbeat sender, the backup monitor and the load-balancer monitor.
\<close>

theorem failover_promotes:
  "is_active n \<Longrightarrow> \<not> is_primary n \<Longrightarrow> clock e - last_heartbeat n > 10 \<Longrightarrow>
     heartbeat_monitor_step e n = initiate_failover n
     \<and> (case initiate_failover n of
          (n', eff) \<Rightarrow>
            is_primary n' \<and> \<not> is_backup n'
            \<and> backup_ports n' = filter (\<lambda>p. p \<noteq> port n) [8001, 8002]
            \<and> load_balancer n' =
                Some (set_active_nodes LoadBalancer_init (map backup_name (backup_ports n')))
            \<and> map_option active_nodes (load_balancer n') = Some (map backup_name (backup_ports n'))
            \<and> map_option current_algorithm (load_balancer n') = Some ''round_robin''
            \<and> map_option round_robin_index (load_balancer n') = Some 0
            \<and> map_option node_connections (load_balancer n') = Some []
            \<and> eff = [StartThread HeartbeatSender, StartThread BackupMonitor,
                      StartThread LoadBalancerMonitor])"
  by (simp add: heartbeat_monitor_step_def initiate_failover_def Let_def set_active_nodes_def
        LoadBalancer_init_def)

theorem failover_promotes_witness:
  "is_active backup0 \<and> \<not> is_primary backup0
   \<and> clock (env0\<lparr> clock := 200 \<rparr>) - last_heartbeat backup0 > 10
   \<and> heartbeat_monitor_step (env0\<lparr> clock := 200 \<rparr>) backup0 = initiate_failover backup0
   \<and> (case initiate_failover backup0 of
          (n', eff) \<Rightarrow>
            is_primary n' \<and> \<not> is_backup n' \<and> backup_ports n' = [8002]
            \<and> map_option active_nodes (load_balancer n') = Some [''backup-8002'']
            \<and> eff = [StartThread HeartbeatSender, StartThread BackupMonitor,
                      StartThread LoadBalancerMonitor])"
proof -
  have c: "clock (env0\<lparr> clock := 200 \<rparr>) - last_heartbeat backup0 > 10"
    by (simp add: backup0_fields)
  show ?thesis
    using failover_promotes [OF backup0_fields(1) backup0_not_primary c] c
      backup0_fields backup0_not_primary
    by (auto simp: backup_name_8002 split: prod.splits)
qed

section \<open>Selection of a backup\<close>

lemma lb_two_fields:
  "active_nodes lb_two = [''backup-8001'', ''backup-8002'']"
  "round_robin_index lb_two = 0"
  "current_algorithm lb_two = ''round_robin''"
  "node_connections lb_two = []"
  by (simp_all add: lb_two_def set_active_nodes_def LoadBalancer_init_def)

lemma hex0:
  "int_base16 ''0123456789abcdef0123456789abcdef'' = Inr 1512366075204170929049582354406559215"
  by (simp add: int_base16_def hex_val_def)

text \<open>
  C7. With a non-empty active list and a non-empty client id, \<^verbatim>\<open>hash_based\<close> returns the
  node at index \<open>hash mod length\<close>, where \<open>hash\<close> is the MD5 digest of the client id read as a
  hexadecimal number, and leaves the load balancer as it was; so does any other call with
  the same client id on a load balancer with the same active list. Without a client id (or
  with the empty one) the call is the call of \<^verbatim>\<open>round_robin\<close>.
\<close>

theorem hash_based_stable:
  "active_nodes lb \<noteq> [] \<Longrightarrow> client_id \<noteq> [] \<Longrightarrow>
     int_base16 (md5_hexdigest e client_id) = Inr h \<Longrightarrow>
     hash_based e lb (Some client_id)
       = Inr (Some (active_nodes lb ! (h mod length (active_nodes lb))), lb)
     \<and> (active_nodes lb' = active_nodes lb \<and> md5_hexdigest e' = md5_hexdigest e \<longrightarrow>
          hash_based e' lb' (Some client_id)
            = Inr (Some (active_nodes lb ! (h mod length (active_nodes lb))), lb'))
     \<and> hash_based e lb None = round_robin lb
     \<and> hash_based e lb (Some []) = round_robin lb"
  by (simp add: hash_based_def)

theorem hash_based_stable_witness:
  "active_nodes lb_two \<noteq> [] \<and> ''127.0.0.1:5000'' \<noteq> []
   \<and> int_base16 (md5_hexdigest env0 ''127.0.0.1:5000'') = Inr 1512366075204170929049582354406559215
   \<and> hash_based env0 lb_two (Some ''127.0.0.1:5000'') = Inr (Some ''backup-8002'', lb_two)
   \<and> hash_based env0 (lb_two\<lparr> round_robin_index := 1 \<rparr>) (Some ''127.0.0.1:5000'')
        = Inr (Some ''backup-8002'', lb_two\<lparr> round_robin_index := 1 \<rparr>)
   \<and> hash_based env0 lb_two None = round_robin lb_two"
proof -
  have h: "int_base16 (md5_hexdigest env0 ''127.0.0.1:5000'')
             = Inr 1512366075204170929049582354406559215"
    by (simp add: env0_def hex0)
  have a: "active_nodes lb_two \<noteq> []"
    by (simp add: lb_two_fields)
  have c: "''127.0.0.1:5000'' \<noteq> []"
    by simp
  have l: "length (active_nodes lb_two) = 2"
    by (simp add: lb_two_fields)
  have m: "(1512366075204170929049582354406559215::nat) mod 2 = 1"
    by simp
  have idx: "active_nodes lb_two
               ! (1512366075204170929049582354406559215 mod length (active_nodes lb_two))
               = ''backup-8002''"
    by (simp only: l m) (simp add: lb_two_fields)
  have same: "active_nodes (lb_two\<lparr> round_robin_index := 1 \<rparr>) = active_nodes lb_two"
    by simp
  show ?thesis
    using hash_based_stable [OF a c h, of "lb_two\<lparr> round_robin_index := 1 \<rparr>" env0]
      h a same idx
    by simp
qed

section \<open>Round robin and a shrinking active set\<close>

lemma primary0_fields:
  "is_active primary0" "backup_ports primary0 = [8001, 8002]"
  "load_balancer primary0 = Some LoadBalancer_init"
  by (simp_all add: primary0_def node_init_def set_active_nodes_def LoadBalancer_init_def)

lemma primary_two_fields:
  "is_active primary_two" "is_primary primary_two" "backup_ports primary_two = [8001, 8002]"
  "load_balancer primary_two = Some lb_two"
  by (simp_all add: primary_two_def heartbeat_sender_step_def primary0_fields primary0_is_primary
       env_up_def env0_def lb_two_def backup_name_8001 backup_name_8002 Let_def)

lemma split_8001: "split_on (CHR ''-'') [] ''backup-8001'' = [''backup'', ''8001'']"
  by simp

lemma int_8001: "int_base10 ''8001'' = Inr 8001"
  by (simp add: int_base10_def digit_val_def)

lemma primary_read_fields:
  "is_active primary_read" "is_primary primary_read" "backup_ports primary_read = [8001, 8002]"
  "map_option round_robin_index (load_balancer primary_read) = Some 1"
  "map_option current_algorithm (load_balancer primary_read) = Some ''round_robin''"
  "map_option active_nodes (load_balancer primary_read) = Some [''backup-8001'', ''backup-8002'']"
  "fst (handle_client env0 primary_two (''127.0.0.1'', 5000) (Search ''apple'')) \<noteq> None"
  by (simp_all add: primary_read_def handle_client_def process_request_def primary_two_fields
       handle_load_balanced_read_def get_next_node_def lb_two_fields round_robin_def
       split_8001 int_8001 forward_read_request_def forward_attempt_def env0_def
       on_exception_def update_node_metrics_def Let_def backup_name_8001
       increment_connections_def decrement_connections_def conn_count_def update_metrics_def
       lb_two_def set_active_nodes_def LoadBalancer_init_def init_weight_def
       split: prod.splits)

lemma primary_shrunk_fields:
  "is_primary primary_shrunk"
  "map_option round_robin_index (load_balancer primary_shrunk) = Some 1"
  "map_option current_algorithm (load_balancer primary_shrunk) = Some ''round_robin''"
  "map_option active_nodes (load_balancer primary_shrunk) = Some [''backup-8001'']"
  using primary_read_fields
  by (auto simp add: primary_shrunk_def heartbeat_sender_step_def Let_def env_one_def env0_def
        set_active_nodes_def backup_name_8001)

lemma round_robin_beyond:
  "active_nodes lb \<noteq> [] \<Longrightarrow> length (active_nodes lb) \<le> round_robin_index lb \<Longrightarrow>
     round_robin lb = Inl IndexError"
  by (simp add: round_robin_def)

lemma round_robin_in_range:
  "active_nodes lb \<noteq> [] \<Longrightarrow> round_robin_index lb < length (active_nodes lb) \<Longrightarrow>
     \<exists>node lb'. round_robin lb = Inr (Some node, lb') \<and> node \<in> set (active_nodes lb)
        \<and> node = active_nodes lb ! round_robin_index lb
        \<and> active_nodes lb' = active_nodes lb
        \<and> round_robin_index lb' = (round_robin_index lb + 1) mod length (active_nodes lb)
        \<and> round_robin_index lb' < length (active_nodes lb')"
  by (simp add: round_robin_def)

lemma shrunk_no_answer:
  "handle_client env0 primary_shrunk (''127.0.0.1'', 5000) (Search ''apple'')
     = (None, primary_shrunk, [])"
proof -
  obtain lb where lb: "load_balancer primary_shrunk = Some lb"
    using primary_shrunk_fields(2) by (cases "load_balancer primary_shrunk") auto
  with primary_shrunk_fields have f: "round_robin_index lb = 1"
    "current_algorithm lb = ''round_robin''" "active_nodes lb = [''backup-8001'']"
    by simp_all
  have "round_robin lb = Inl IndexError"
    by (rule round_robin_beyond) (simp_all add: f)
  then show ?thesis
    by (simp add: handle_client_def process_request_def primary_shrunk_fields(1) lb
          handle_load_balanced_read_def get_next_node_def f)
qed

text \<open>
  While the active set is unchanged and the cursor is inside it, successive calls of
  \<^verbatim>\<open>round_robin\<close> go through the active list cyclically from the cursor; over a number of
  calls that is a multiple of the length of the list, every node is returned as often as it
  occurs in the list times that multiple.
\<close>

lemma rr_run_cycle:
  "active_nodes lb \<noteq> [] \<Longrightarrow> round_robin_index lb < length (active_nodes lb) \<Longrightarrow>
     rr_run k lb =
       map (\<lambda>j. active_nodes lb ! ((round_robin_index lb + j) mod length (active_nodes lb)))
         [0..<k]"
proof (induction k arbitrary: lb)
  case 0
  then show ?case by simp
next
  case (Suc k)
  let ?N = "length (active_nodes lb)"
  let ?lb' = "lb\<lparr> round_robin_index := (round_robin_index lb + 1) mod ?N \<rparr>"
  have r: "round_robin lb = Inr (Some (active_nodes lb ! round_robin_index lb), ?lb')"
    using Suc.prems by (simp add: round_robin_def)
  have pos: "0 < ?N" using Suc.prems by simp
  have ih: "rr_run k ?lb' =
      map (\<lambda>j. active_nodes lb ! (((round_robin_index lb + 1) mod ?N + j) mod ?N)) [0..<k]"
    using Suc.IH [of ?lb'] Suc.prems pos by simp
  have shift: "\<And>j. ((round_robin_index lb + 1) mod ?N + j) mod ?N
                  = (round_robin_index lb + Suc j) mod ?N"
    by (simp add: mod_add_left_eq)
  show ?case
    using Suc.prems(2)
    by (simp only: rr_run.simps r sum.case prod.case option.case ih shift map_upt_Suc)
       simp
qed

lemma block_is_rotation:
  assumes "xs \<noteq> []"
  shows "map (\<lambda>j. xs ! ((i + j) mod length xs)) [0..<length xs] = rotate i xs"
proof (rule nth_equalityI)
  show "length (map (\<lambda>j. xs ! ((i + j) mod length xs)) [0..<length xs]) = length (rotate i xs)"
    by simp
next
  fix m
  assume "m < length (map (\<lambda>j. xs ! ((i + j) mod length xs)) [0..<length xs])"
  then have m: "m < length xs" by simp
  then show "map (\<lambda>j. xs ! ((i + j) mod length xs)) [0..<length xs] ! m = rotate i xs ! m"
    by (simp add: nth_rotate)
qed

lemma count_rotate: "count_list (rotate i xs) x = count_list xs x"
proof -
  have "count_list (drop (i mod length xs) xs @ take (i mod length xs) xs) x
          = count_list (take (i mod length xs) xs @ drop (i mod length xs) xs) x"
    by (simp only: count_list_append add.commute)
  then show ?thesis
    by (simp add: rotate_drop_take)
qed

lemma cycle_counts:
  assumes "xs \<noteq> []"
  shows "count_list (map (\<lambda>j. xs ! ((i + j) mod length xs)) [0..<k * length xs]) x
           = k * count_list xs x"
proof (induction k)
  case 0
  then show ?case by simp
next
  case (Suc k)
  let ?N = "length xs"
  let ?f = "\<lambda>j. xs ! ((i + j) mod ?N)"
  have split: "[0..<Suc k * ?N] = [0..<k * ?N] @ map (\<lambda>j. j + k * ?N) [0..<?N]"
  proof -
    have "[0..<k * ?N + ?N] = [0..<k * ?N] @ [k * ?N..<k * ?N + ?N]"
      by (rule upt_add_eq_append) simp
    moreover have "map (\<lambda>j. j + k * ?N) [0..<?N] = [k * ?N..<?N + k * ?N]"
      by (rule map_add_upt)
    ultimately show ?thesis
      by (simp add: add.commute)
  qed
  have blk: "map ?f (map (\<lambda>j. j + k * ?N) [0..<?N]) = map (\<lambda>j. xs ! ((i + j) mod ?N)) [0..<?N]"
    by (simp add: add.assoc [symmetric])
  have "count_list (map ?f [0..<Suc k * ?N]) x
          = count_list (map ?f [0..<k * ?N]) x + count_list (rotate i xs) x"
    by (simp only: split map_append count_list_append blk block_is_rotation [OF assms])
  then show ?case
    by (simp add: Suc.IH count_rotate)
qed

lemma round_robin_coverage:
  assumes "active_nodes lb \<noteq> []" "round_robin_index lb < length (active_nodes lb)"
  shows "length (rr_run m lb) = m"
    and "set (rr_run m lb) \<subseteq> set (active_nodes lb)"
    and "count_list (rr_run (k * length (active_nodes lb)) lb) node
           = k * count_list (active_nodes lb) node"
    and "distinct (active_nodes lb) \<Longrightarrow> node \<in> set (active_nodes lb) \<Longrightarrow>
           count_list (rr_run (k * length (active_nodes lb)) lb) node = k"
proof -
  note c = rr_run_cycle [OF assms]
  show "length (rr_run m lb) = m" by (simp add: c)
  show "set (rr_run m lb) \<subseteq> set (active_nodes lb)"
    using assms(1) by (auto simp add: c)
  show cnt: "count_list (rr_run (k * length (active_nodes lb)) lb) node
           = k * count_list (active_nodes lb) node"
    by (simp only: c cycle_counts [OF assms(1)])
  show "count_list (rr_run (k * length (active_nodes lb)) lb) node = k"
    if "distinct (active_nodes lb)" "node \<in> set (active_nodes lb)"
  proof -
    have "count_list (active_nodes lb) node = 1"
      using that by (simp add: count_list_eq_length_filter distinct_length_filter)
    then show ?thesis by (simp add: cnt)
  qed
qed

text \<open>
  C5 asks that \<^verbatim>\<open>round_robin\<close> return a member of a non-empty active set also after the
  set has shrunk. The code reads the list at the cursor the previous call left: with the
  active set \<^verbatim>\<open>["backup-8001", "backup-8002"]\<close> one call returns \<^verbatim>\<open>backup-8001\<close> and
  leaves the cursor at 1; once the active set is \<^verbatim>\<open>["backup-8001"]\<close> the next call raises
  \<^verbatim>\<open>IndexError\<close>. On the primary this state is reached by a heartbeat round that reaches
  both backups, one search request, and a heartbeat round that reaches one backup only; the
  next search request is then closed without an answer.
\<close>

theorem round_robin_after_shrink:
  "round_robin lb_two = Inr (Some ''backup-8001'', lb_two\<lparr> round_robin_index := 1 \<rparr>)
   \<and> active_nodes (set_active_nodes (lb_two\<lparr> round_robin_index := 1 \<rparr>) [''backup-8001''])
        = [''backup-8001'']
   \<and> round_robin (set_active_nodes (lb_two\<lparr> round_robin_index := 1 \<rparr>) [''backup-8001''])
        = Inl IndexError
   \<and> map_option active_nodes (load_balancer primary_shrunk) = Some [''backup-8001'']
   \<and> handle_client env0 primary_shrunk (''127.0.0.1'', 5000) (Search ''apple'')
        = (None, primary_shrunk, [])"
  using shrunk_no_answer primary_shrunk_fields(4)
  by (simp add: round_robin_def lb_two_fields set_active_nodes_def)

section \<open>Connection counts\<close>

lemma conn_inc:
  "conn_count (increment_connections lb a) b = (if b = a then conn_count lb a + 1 else conn_count lb b)"
  by (simp add: conn_count_def increment_connections_def update_conv')

lemma conn_dec:
  "conn_count (decrement_connections lb a) b =
     (if b = a \<and> conn_count lb a > 0 then conn_count lb a - 1 else conn_count lb b)"
  by (auto simp add: conn_count_def decrement_connections_def update_conv' split: option.splits)

lemma metrics_frame:
  "node_connections (snd (update_node_metrics lb node rt ok)) = node_connections lb"
  "active_nodes (snd (update_node_metrics lb node rt ok)) = active_nodes lb"
  by (simp_all add: update_node_metrics_def Let_def split: option.splits)

lemma on_exception_frame:
  "node_connections (snd (on_exception e n lb nid product reason)) = node_connections lb"
  "active_nodes (snd (on_exception e n lb nid product reason)) = active_nodes lb"
proof -
  obtain err lb' where u: "update_node_metrics lb nid (elapsed_except e) False = (err, lb')"
    by (cases "update_node_metrics lb nid (elapsed_except e) False") auto
  from metrics_frame [of lb nid "elapsed_except e" False] u
  have "node_connections lb' = node_connections lb" "active_nodes lb' = active_nodes lb"
    by simp_all
  then show "node_connections (snd (on_exception e n lb nid product reason)) = node_connections lb"
    and "active_nodes (snd (on_exception e n lb nid product reason)) = active_nodes lb"
    using u by (cases err; simp add: on_exception_def)+
qed

lemma attempt_connections:
  "node_connections (snd (forward_attempt e n lb nid product)) = node_connections lb"
proof (cases "forward_outcome e")
  case Timeout
  then show ?thesis by (simp add: forward_attempt_def on_timeout_def)
next
  case (Failed reason)
  then show ?thesis
    by (simp add: forward_attempt_def on_exception_frame)
next
  case (Replied resp)
  let ?ok = "map_of resp ''status'' = Some (JStr ''success'')"
  obtain err lb' where u: "update_node_metrics lb nid (elapsed e) ?ok = (err, lb')"
    by (cases "update_node_metrics lb nid (elapsed e) ?ok") auto
  have c: "node_connections lb' = node_connections lb"
    using metrics_frame(1) [of lb nid "elapsed e" ?ok] u by simp
  show ?thesis
    using Replied u c
    by (cases err) (simp_all add: forward_attempt_def on_exception_frame Let_def)
qed

lemma calls_nonneg:
  "(\<forall>node. 0 \<le> conn_count lb node) \<Longrightarrow> 0 \<le> conn_count (apply_calls lb calls) node"
proof (induction calls arbitrary: lb)
  case Nil
  then show ?case by simp
next
  case (Cons c calls)
  show ?case
  proof (cases c)
    case (Increment a)
    have "\<forall>node. 0 \<le> conn_count (increment_connections lb a) node"
      using Cons.prems by (simp add: conn_inc)
    from Cons.IH [OF this] show ?thesis by (simp add: Increment)
  next
    case (Decrement a)
    have "\<forall>node. 0 \<le> conn_count (decrement_connections lb a) node"
      using Cons.prems by (simp add: conn_dec)
    from Cons.IH [OF this] show ?thesis by (simp add: Decrement)
  qed
qed

lemma init_counts: "conn_count LoadBalancer_init node = 0"
  by (simp add: conn_count_def LoadBalancer_init_def)

text \<open>
  C8. Starting from a load balancer whose connection counts are all non-negative (the fresh
  one has them all 0), every sequence of \<^verbatim>\<open>increment_connections\<close> and
  \<^verbatim>\<open>decrement_connections\<close> calls leaves every count non-negative. A forwarded read is
  the increment of the count of the target node, then the attempt with its exception
  handlers, which does not touch the counts, then the decrement of the same count: whatever
  the outcome of the attempt (answer, timeout, other exception, or an exception that leaves
  the function), the counts after the call are the counts before it.
\<close>

theorem connection_counts:
  "(\<forall>node. 0 \<le> conn_count lb node) \<Longrightarrow> load_balancer n = Some lb \<Longrightarrow>
     (\<forall>node. 0 \<le> conn_count (apply_calls LoadBalancer_init calls) node)
     \<and> (\<forall>node. 0 \<le> conn_count (apply_calls lb calls) node)
     \<and> (\<exists>result lb2.
           forward_attempt e n (increment_connections lb (backup_name target_port))
               (backup_name target_port) product = (result, lb2)
           \<and> forward_read_request e n target_port product
               = (result, n\<lparr> load_balancer := Some (decrement_connections lb2 (backup_name target_port)) \<rparr>)
           \<and> conn_count (increment_connections lb (backup_name target_port)) (backup_name target_port)
               = conn_count lb (backup_name target_port) + 1
           \<and> node_connections lb2
               = node_connections (increment_connections lb (backup_name target_port))
           \<and> (\<forall>node. conn_count (decrement_connections lb2 (backup_name target_port)) node
                        = conn_count lb node))"
proof -
  assume nn: "\<forall>node. 0 \<le> conn_count lb node" and lb: "load_balancer n = Some lb"
  let ?nid = "backup_name target_port"
  let ?lb1 = "increment_connections lb ?nid"
  obtain result lb2 where a: "forward_attempt e n ?lb1 ?nid product = (result, lb2)"
    by (cases "forward_attempt e n ?lb1 ?nid product") auto
  have c2: "node_connections lb2 = node_connections ?lb1"
    using attempt_connections [of e n ?lb1 ?nid product] a by simp
  then have cc: "conn_count lb2 = conn_count ?lb1"
    by (simp add: conn_count_def fun_eq_iff)
  have restored: "\<forall>node. conn_count (decrement_connections lb2 ?nid) node = conn_count lb node"
  proof
    fix node
    have "0 \<le> conn_count lb ?nid" using nn by simp
    then show "conn_count (decrement_connections lb2 ?nid) node = conn_count lb node"
      by (simp add: conn_dec cc conn_inc)
  qed
  have f: "forward_read_request e n target_port product
             = (result, n\<lparr> load_balancer := Some (decrement_connections lb2 ?nid) \<rparr>)"
    by (simp add: forward_read_request_def lb a Let_def)
  have i: "conn_count ?lb1 ?nid = conn_count lb ?nid + 1" by (simp add: conn_inc)
  have z: "\<forall>node. 0 \<le> conn_count LoadBalancer_init node" by (simp add: init_counts)
  show ?thesis
    using a f i c2 restored calls_nonneg [OF nn] calls_nonneg [OF z] by blast
qed


lemma lb_two_counts: "conn_count lb_two node = 0"
  by (simp add: conn_count_def lb_two_def set_active_nodes_def LoadBalancer_init_def)

theorem connection_counts_witness:
  "(\<forall>node. 0 \<le> conn_count lb_two node) \<and> load_balancer primary_two = Some lb_two
   \<and> (\<forall>node. 0 \<le> conn_count
          (apply_calls lb_two [Decrement ''backup-8001'', Increment ''backup-8001'']) node)
   \<and> (\<forall>node. map_option (\<lambda>l. conn_count l node)
          (load_balancer (snd (forward_read_request env0 primary_two 8001 ''apple'')))
        = Some (conn_count lb_two node))"
proof -
  have nn: "\<forall>node. 0 \<le> conn_count lb_two node" by (simp add: lb_two_counts)
  show ?thesis
    using connection_counts [OF nn primary_two_fields(4),
        of "[Decrement ''backup-8001'', Increment ''backup-8001'']" env0 8001 "''apple''"]
      nn primary_two_fields(4)
    by auto
qed

section \<open>Forwarded reads that fail\<close>

lemma fallback_fields:
  "map_of (local_fallback e n product reason) ''status'' = Some (JStr ''success'')"
  "map_of (local_fallback e n product reason) ''load_balanced'' = Some (JBool False)"
  "map_of (local_fallback e n product reason) ''fallback_reason'' = Some (JStr reason)"
  "map_of (local_fallback e n product reason) ''served_by'' = Some (JStr (node_id n))"
  "map_of (local_fallback e n product reason) ''results''
     = map_of (search_product e n product) ''results''"
  by (simp_all add: local_fallback_def update_conv' search_product_def Let_def)

lemma dec_active: "active_nodes (decrement_connections lb a) = active_nodes lb"
  by (simp add: decrement_connections_def)

lemma inc_frame:
  "active_nodes (increment_connections lb a) = active_nodes lb"
  "node_weights (increment_connections lb a) = node_weights lb"
  by (simp_all add: increment_connections_def)

lemma metrics_failure_ok:
  "map_of (node_weights lb) node \<noteq> None \<Longrightarrow>
     fst (update_node_metrics lb node rt False) = None"
  by (auto simp add: update_node_metrics_def Let_def update_conv' split: option.splits)

lemma timeout_forward:
  "load_balancer n = Some lb \<Longrightarrow> forward_outcome e = Timeout \<Longrightarrow>
     fst (forward_read_request e n target_port product)
       = Inr (local_fallback e n product ''backup_timeout'')
     \<and> map_option active_nodes (load_balancer (snd (forward_read_request e n target_port product)))
       = Some (remove1 (backup_name target_port) (active_nodes lb))"
  by (simp add: forward_read_request_def Let_def forward_attempt_def on_timeout_def
        dec_active inc_frame remove1_idem)

lemma failed_forward:
  assumes lb: "load_balancer n = Some lb"
    and o: "forward_outcome e = Failed reason"
    and w: "map_of (node_weights lb) (backup_name target_port) \<noteq> None"
  shows "fst (forward_read_request e n target_port product)
           = Inr (local_fallback e n product reason)
         \<and> map_option active_nodes
             (load_balancer (snd (forward_read_request e n target_port product)))
           = Some (active_nodes lb)"
proof -
  let ?nid = "backup_name target_port"
  let ?lb1 = "increment_connections lb ?nid"
  obtain err lb' where u: "update_node_metrics ?lb1 ?nid (elapsed_except e) False = (err, lb')"
    by (cases "update_node_metrics ?lb1 ?nid (elapsed_except e) False") auto
  have "err = None"
    using metrics_failure_ok [of ?lb1 ?nid "elapsed_except e"] w u by (simp add: inc_frame)
  moreover have "active_nodes lb' = active_nodes lb"
    using metrics_frame(2) [of ?lb1 ?nid "elapsed_except e" False] u by (simp add: inc_frame)
  ultimately show ?thesis
    using u o
    by (simp add: forward_read_request_def lb Let_def forward_attempt_def on_exception_def
          dec_active)
qed

lemma lb_two_weight: "map_of (node_weights lb_two) ''backup-8001'' = Some 1"
  by (simp add: lb_two_def set_active_nodes_def LoadBalancer_init_def init_weight_def)

text \<open>
  C6, as stated, fails in one point: a backup that refuses the connection is not removed
  from the active set. With the active set \<^verbatim>\<open>["backup-8001", "backup-8002"]\<close> and a
  read forwarded to port 8001 that fails with \<^verbatim>\<open>Connection refused\<close>, the read is
  answered locally and the active set is unchanged.
\<close>

theorem refused_backup_stays_active:
  "load_balancer primary_two = Some lb_two
   \<and> forward_outcome env0 = Failed ''[Errno 111] Connection refused''
   \<and> fst (forward_read_request env0 primary_two 8001 ''apple'')
       = Inr (local_fallback env0 primary_two ''apple'' ''[Errno 111] Connection refused'')
   \<and> map_option active_nodes
        (load_balancer (snd (forward_read_request env0 primary_two 8001 ''apple'')))
       = Some [''backup-8001'', ''backup-8002'']"
proof -
  have o: "forward_outcome env0 = Failed ''[Errno 111] Connection refused''"
    by (simp add: env0_def)
  have w: "map_of (node_weights lb_two) (backup_name 8001) \<noteq> None"
    by (simp add: backup_name_8001 lb_two_weight)
  from failed_forward [OF primary_two_fields(4) o w, of "''apple''"] o show ?thesis
    by (simp add: primary_two_fields lb_two_fields)
qed

lemma dec_metrics:
  "node_weights (decrement_connections lb a) = node_weights lb"
  "node_response_times (decrement_connections lb a) = node_response_times lb"
  by (simp_all add: decrement_connections_def)

lemma inc_metrics:
  "node_response_times (increment_connections lb a) = node_response_times lb"
  by (simp add: increment_connections_def)

lemma timeout_metrics:
  "load_balancer n = Some lb \<Longrightarrow> forward_outcome e = Timeout \<Longrightarrow>
     map_option node_weights (load_balancer (snd (forward_read_request e n target_port product)))
       = Some (node_weights lb)
     \<and> map_option node_response_times
          (load_balancer (snd (forward_read_request e n target_port product)))
       = Some (node_response_times lb)"
  by (simp add: forward_read_request_def Let_def forward_attempt_def on_timeout_def
        dec_metrics inc_frame inc_metrics)

lemma metrics_failure_fields:
  assumes "map_of (node_weights lb) node = Some w"
  shows "(let old = (case map_of (node_response_times lb) node of None \<Rightarrow> [] | Some ts \<Rightarrow> ts);
              times = (if length (old @ [rt]) > 10 then last_n 10 (old @ [rt]) else old @ [rt]);
              avg = sum_list times / real (length times)
          in node_response_times (snd (update_node_metrics lb node rt False))
               = AList.update node times (node_response_times lb)
             \<and> map_of (node_weights (snd (update_node_metrics lb node rt False)))
               = (map_of (node_weights lb))
                   (node \<mapsto> (if avg > 0 then 1 / avg else w) * 0.9))"
  using assms
  by (auto simp add: update_node_metrics_def Let_def update_conv' split: option.splits)

lemma failed_metrics:
  assumes lb: "load_balancer n = Some lb"
    and o: "forward_outcome e = Failed reason"
    and w: "map_of (node_weights lb) (backup_name target_port) = Some w"
  shows "(let old = (case map_of (node_response_times lb) (backup_name target_port) of
                       None \<Rightarrow> [] | Some ts \<Rightarrow> ts);
              times = (if length (old @ [elapsed_except e]) > 10
                       then last_n 10 (old @ [elapsed_except e]) else old @ [elapsed_except e]);
              avg = sum_list times / real (length times)
          in map_option node_response_times
               (load_balancer (snd (forward_read_request e n target_port product)))
               = Some (AList.update (backup_name target_port) times (node_response_times lb))
             \<and> map_option (\<lambda>l. map_of (node_weights l))
               (load_balancer (snd (forward_read_request e n target_port product)))
               = Some ((map_of (node_weights lb))
                   (backup_name target_port \<mapsto> (if avg > 0 then 1 / avg else w) * 0.9)))"
proof -
  let ?nid = "backup_name target_port"
  let ?lb1 = "increment_connections lb ?nid"
  have w1: "map_of (node_weights ?lb1) ?nid = Some w"
    using w by (simp add: inc_frame)
  obtain err lb' where u: "update_node_metrics ?lb1 ?nid (elapsed_except e) False = (err, lb')"
    by (cases "update_node_metrics ?lb1 ?nid (elapsed_except e) False") auto
  have after: "load_balancer (snd (forward_read_request e n target_port product))
                 = Some (decrement_connections lb' ?nid)"
    using u o by (cases err) (simp_all add: forward_read_request_def lb Let_def
          forward_attempt_def on_exception_def)
  show ?thesis
    using metrics_failure_fields [OF w1, of "elapsed_except e"] u
    by (simp add: after dec_metrics inc_frame inc_metrics Let_def)
qed


lemma lb_two_metrics:
  "node_weights lb_two = [(''backup-8001'', 1), (''backup-8002'', 1)]"
  "node_response_times lb_two = []"
  by (simp_all add: lb_two_def set_active_nodes_def LoadBalancer_init_def init_weight_def)

text \<open>
  C6, amended. On a node with a load balancer, a forwarded read that times out is answered
  with the local search result, the first occurrence of the target node is removed from the
  active set, and no metric is recorded: the weights and the response times are left as they
  were. A forwarded read that fails with any other exception is answered with the local
  search result, the active set is left as it was, and the failure is recorded in the
  metrics of the target node, provided that node has a weight (as every node passed to
  \<^verbatim>\<open>set_active_nodes\<close> has): the time read by the handler is appended to its response
  times, of which the last 10 are kept, and its weight becomes 0.9 times the inverse of
  their average if the average is positive, 0.9 times the old weight otherwise; the weights
  of the other nodes do not change. In both cases the answer has status \<^verbatim>\<open>success\<close>,
  \<^verbatim>\<open>load_balanced\<close> false, the reason under \<^verbatim>\<open>fallback_reason\<close>, and the results
  and the serving node of the local search.
\<close>

theorem forward_failure_fallback:
  "load_balancer n = Some lb \<Longrightarrow>
     (forward_outcome e = Timeout \<longrightarrow>
        fst (forward_read_request e n target_port product)
          = Inr (local_fallback e n product ''backup_timeout'')
        \<and> map_option active_nodes (load_balancer (snd (forward_read_request e n target_port product)))
          = Some (remove1 (backup_name target_port) (active_nodes lb))
        \<and> map_option node_weights (load_balancer (snd (forward_read_request e n target_port product)))
          = Some (node_weights lb)
        \<and> map_option node_response_times
             (load_balancer (snd (forward_read_request e n target_port product)))
          = Some (node_response_times lb))
     \<and> (forward_outcome e = Failed reason
          \<and> map_of (node_weights lb) (backup_name target_port) = Some w \<longrightarrow>
        fst (forward_read_request e n target_port product)
          = Inr (local_fallback e n product reason)
        \<and> map_option active_nodes (load_balancer (snd (forward_read_request e n target_port product)))
          = Some (active_nodes lb)
        \<and> (let old = (case map_of (node_response_times lb) (backup_name target_port) of
                         None \<Rightarrow> [] | Some ts \<Rightarrow> ts);
                times = (if length (old @ [elapsed_except e]) > 10
                         then last_n 10 (old @ [elapsed_except e])
                         else old @ [elapsed_except e]);
                avg = sum_list times / real (length times)
            in map_option node_response_times
                 (load_balancer (snd (forward_read_request e n target_port product)))
                 = Some (AList.update (backup_name target_port) times (node_response_times lb))
               \<and> map_option (\<lambda>l. map_of (node_weights l))
                 (load_balancer (snd (forward_read_request e n target_port product)))
                 = Some ((map_of (node_weights lb))
                     (backup_name target_port \<mapsto> (if avg > 0 then 1 / avg else w) * 0.9))))
     \<and> map_of (local_fallback e n product r) ''status'' = Some (JStr ''success'')
     \<and> map_of (local_fallback e n product r) ''load_balanced'' = Some (JBool False)
     \<and> map_of (local_fallback e n product r) ''fallback_reason'' = Some (JStr r)
     \<and> map_of (local_fallback e n product r) ''served_by'' = Some (JStr (node_id n))
     \<and> map_of (local_fallback e n product r) ''results''
          = map_of (search_product e n product) ''results''"
proof -
  assume lb: "load_balancer n = Some lb"
  have t: "forward_outcome e = Timeout \<longrightarrow>
        fst (forward_read_request e n target_port product)
          = Inr (local_fallback e n product ''backup_timeout'')
        \<and> map_option active_nodes (load_balancer (snd (forward_read_request e n target_port product)))
          = Some (remove1 (backup_name target_port) (active_nodes lb))
        \<and> map_option node_weights (load_balancer (snd (forward_read_request e n target_port product)))
          = Some (node_weights lb)
        \<and> map_option node_response_times
             (load_balancer (snd (forward_read_request e n target_port product)))
          = Some (node_response_times lb)"
    using timeout_forward [OF lb, of e target_port product]
      timeout_metrics [OF lb, of e target_port product]
    by blast
  have f: "forward_outcome e = Failed reason
          \<and> map_of (node_weights lb) (backup_name target_port) = Some w \<longrightarrow>
        fst (forward_read_request e n target_port product)
          = Inr (local_fallback e n product reason)
        \<and> map_option active_nodes (load_balancer (snd (forward_read_request e n target_port product)))
          = Some (active_nodes lb)
        \<and> (let old = (case map_of (node_response_times lb) (backup_name target_port) of
                         None \<Rightarrow> [] | Some ts \<Rightarrow> ts);
                times = (if length (old @ [elapsed_except e]) > 10
                         then last_n 10 (old @ [elapsed_except e])
                         else old @ [elapsed_except e]);
                avg = sum_list times / real (length times)
            in map_option node_response_times
                 (load_balancer (snd (forward_read_request e n target_port product)))
                 = Some (AList.update (backup_name target_port) times (node_response_times lb))
               \<and> map_option (\<lambda>l. map_of (node_weights l))
                 (load_balancer (snd (forward_read_request e n target_port product)))
                 = Some ((map_of (node_weights lb))
                     (backup_name target_port \<mapsto> (if avg > 0 then 1 / avg else w) * 0.9)))"
  proof (intro impI, elim conjE)
    assume o: "forward_outcome e = Failed reason"
      and w: "map_of (node_weights lb) (backup_name target_port) = Some w"
    have w': "map_of (node_weights lb) (backup_name target_port) \<noteq> None"
      using w by simp
    from failed_forward [OF lb o w', of product] failed_metrics [OF lb o w, of product]
    show "fst (forward_read_request e n target_port product)
          = Inr (local_fallback e n product reason)
        \<and> map_option active_nodes (load_balancer (snd (forward_read_request e n target_port product)))
          = Some (active_nodes lb)
        \<and> (let old = (case map_of (node_response_times lb) (backup_name target_port) of
                         None \<Rightarrow> [] | Some ts \<Rightarrow> ts);
                times = (if length (old @ [elapsed_except e]) > 10
                         then last_n 10 (old @ [elapsed_except e])
                         else old @ [elapsed_except e]);
                avg = sum_list times / real (length times)
            in map_option node_response_times
                 (load_balancer (snd (forward_read_request e n target_port product)))
                 = Some (AList.update (backup_name target_port) times (node_response_times lb))
               \<and> map_option (\<lambda>l. map_of (node_weights l))
                 (load_balancer (snd (forward_read_request e n target_port product)))
                 = Some ((map_of (node_weights lb))
                     (backup_name target_port \<mapsto> (if avg > 0 then 1 / avg else w) * 0.9)))"
      by blast
  qed
  show ?thesis
    using t f fallback_fields [of e n product r] by blast
qed

theorem forward_failure_fallback_witness:
  "load_balancer primary_two = Some lb_two
   \<and> forward_outcome env_timeout = Timeout
   \<and> fst (forward_read_request env_timeout primary_two 8001 ''apple'')
       = Inr (local_fallback env_timeout primary_two ''apple'' ''backup_timeout'')
   \<and> map_option active_nodes
        (load_balancer (snd (forward_read_request env_timeout primary_two 8001 ''apple'')))
       = Some [''backup-8002'']
   \<and> map_option node_weights
        (load_balancer (snd (forward_read_request env_timeout primary_two 8001 ''apple'')))
       = Some [(''backup-8001'', 1), (''backup-8002'', 1)]
   \<and> map_option node_response_times
        (load_balancer (snd (forward_read_request env_timeout primary_two 8001 ''apple'')))
       = Some []
   \<and> forward_outcome env0 = Failed ''[Errno 111] Connection refused''
   \<and> map_of (node_weights lb_two) (backup_name 8001) = Some 1
   \<and> fst (forward_read_request env0 primary_two 8001 ''apple'')
       = Inr (local_fallback env0 primary_two ''apple'' ''[Errno 111] Connection refused'')
   \<and> map_option active_nodes
        (load_balancer (snd (forward_read_request env0 primary_two 8001 ''apple'')))
       = Some [''backup-8001'', ''backup-8002'']
   \<and> map_option node_response_times
        (load_balancer (snd (forward_read_request env0 primary_two 8001 ''apple'')))
       = Some [(''backup-8001'', [1 / 2])]
   \<and> map_option (\<lambda>l. map_of (node_weights l) ''backup-8001'')
        (load_balancer (snd (forward_read_request env0 primary_two 8001 ''apple'')))
       = Some (Some (9 / 5))
   \<and> map_option (\<lambda>l. map_of (node_weights l) ''backup-8002'')
        (load_balancer (snd (forward_read_request env0 primary_two 8001 ''apple'')))
       = Some (Some 1)
   \<and> map_of (local_fallback env0 primary_two ''apple'' ''[Errno 111] Connection refused'')
        ''load_balanced'' = Some (JBool False)"
proof -
  have o: "forward_outcome env0 = Failed ''[Errno 111] Connection refused''"
    by (simp add: env0_def)
  have t: "forward_outcome env_timeout = Timeout"
    by (simp add: env_timeout_def)
  have w: "map_of (node_weights lb_two) (backup_name 8001) = Some 1"
    by (simp add: backup_name_8001 lb_two_weight)
  have el: "elapsed_except env0 = 1 / 2"
    by (simp add: env0_def)
  note a = forward_failure_fallback [OF primary_two_fields(4), of env_timeout 8001 "''apple''"
        "''x''" 1 "''[Errno 111] Connection refused''"]
  note b = forward_failure_fallback [OF primary_two_fields(4), of env0 8001 "''apple''"
        "''[Errno 111] Connection refused''" 1 "''[Errno 111] Connection refused''"]
  show ?thesis
    using a b o t w primary_two_fields(4)
    by (auto simp add: lb_two_fields lb_two_metrics backup_name_8001 el Let_def)
qed

section \<open>The role of a node along its steps\<close>

lemma buy_role:
  "is_primary (fst (snd (buy_product e n area shop product quantity))) = is_primary n
   \<and> is_backup (fst (snd (buy_product e n area shop product quantity))) = is_backup n"
  by (simp add: buy_product_def Let_def split: option.splits)

lemma add_stock_role:
  "is_primary (fst (snd (add_stock e n area shop product quantity))) = is_primary n
   \<and> is_backup (fst (snd (add_stock e n area shop product quantity))) = is_backup n"
  by (simp add: add_stock_def Let_def split: option.splits)

lemma replication_role:
  "is_primary (snd (handle_replication n t full_state v)) = is_primary n
   \<and> is_backup (snd (handle_replication n t full_state v)) = is_backup n"
  by (simp add: handle_replication_def Let_def)

lemma sync_role:
  "is_primary (snd (handle_sync_request e n full_state txs v)) = is_primary n
   \<and> is_backup (snd (handle_sync_request e n full_state txs v)) = is_backup n"
  by (simp add: handle_sync_request_def Let_def)

lemma configure_role:
  "is_primary (snd (configure_load_balancer n algorithm)) = is_primary n
   \<and> is_backup (snd (configure_load_balancer n algorithm)) = is_backup n"
  by (simp add: configure_load_balancer_def set_algorithm_def split: option.splits)

lemma forward_role:
  "is_primary (snd (forward_read_request e n p product)) = is_primary n
   \<and> is_backup (snd (forward_read_request e n p product)) = is_backup n"
  by (simp add: forward_read_request_def Let_def split: option.splits prod.splits)

lemma forward_roleD:
  "forward_read_request e m p product = (r, m') \<Longrightarrow>
     is_primary m' = is_primary m \<and> is_backup m' = is_backup m"
  using forward_role [of e m p product] by simp

lemma balanced_read_role:
  "is_primary (snd (handle_load_balanced_read e n cid product)) = is_primary n
   \<and> is_backup (snd (handle_load_balanced_read e n cid product)) = is_backup n"
  unfolding handle_load_balanced_read_def Let_def
  by (auto split: option.splits sum.splits prod.splits if_splits dest!: forward_roleD)

lemma process_role:
  "is_primary (fst (snd (process_request e n cid req))) = is_primary n
   \<and> is_backup (fst (snd (process_request e n cid req))) = is_backup n"
proof (cases req)
  case (Search product)
  then show ?thesis
    using balanced_read_role [of e n cid product]
    by (auto simp add: process_request_def split: prod.splits)
next
  case (Buy area shop product quantity)
  then show ?thesis
    using buy_role [of e n area shop product quantity]
    by (auto simp add: process_request_def split: prod.splits)
next
  case (AddStock area shop product quantity)
  then show ?thesis
    using add_stock_role [of e n area shop product quantity]
    by (auto simp add: process_request_def split: prod.splits)
next
  case (SyncRequest full_state txs v)
  then show ?thesis
    using sync_role [of e n full_state txs v]
    by (auto simp add: process_request_def split: prod.splits)
next
  case (Replicate t full_state v)
  then show ?thesis
    using replication_role [of n t full_state v]
    by (auto simp add: process_request_def split: prod.splits)
next
  case (LoadBalancerConfig algorithm)
  then show ?thesis
    using configure_role [of n algorithm]
    by (auto simp add: process_request_def split: prod.splits)
qed (simp_all add: process_request_def)

lemma client_role:
  "is_primary (fst (snd (handle_client e n addr req))) = is_primary n
   \<and> is_backup (fst (snd (handle_client e n addr req))) = is_backup n"
  using process_role [of e n "Some (fst addr @ '':'' @ str_int (snd addr))" req]
  by (auto simp add: handle_client_def Let_def update_metrics_def split: prod.splits sum.splits)

lemma heartbeat_sender_role:
  "is_primary (fst (heartbeat_sender_step e n)) = is_primary n
   \<and> is_backup (fst (heartbeat_sender_step e n)) = is_backup n"
  by (simp add: heartbeat_sender_step_def Let_def)

lemma backup_monitor_role:
  "is_primary (fst (backup_monitor_step e n)) = is_primary n
   \<and> is_backup (fst (backup_monitor_step e n)) = is_backup n"
  by (simp add: backup_monitor_step_def Let_def)

lemma load_balancer_monitor_role:
  "is_primary (load_balancer_monitor_step n) = is_primary n
   \<and> is_backup (load_balancer_monitor_step n) = is_backup n"
  by (simp add: load_balancer_monitor_step_def Let_def split: option.splits)

lemma performance_monitor_role:
  "is_primary (performance_monitor_step e n) = is_primary n
   \<and> is_backup (performance_monitor_step e n) = is_backup n"
  by (simp add: performance_monitor_step_def)

lemma heartbeat_monitor_role:
  "is_primary n \<Longrightarrow> fst (heartbeat_monitor_step e n) = n"
  "is_primary (fst (heartbeat_monitor_step e n))
     \<or> fst (heartbeat_monitor_step e n) = n"
  "\<not> is_backup n \<Longrightarrow> \<not> is_backup (fst (heartbeat_monitor_step e n))"
  by (simp_all add: heartbeat_monitor_step_def initiate_failover_def Let_def)

lemma step_role:
  assumes "node_step n n'"
  shows "(is_primary n \<longrightarrow> is_primary n') \<and> (\<not> is_backup n \<longrightarrow> \<not> is_backup n')"
  using assms
proof cases
  case (step_client e client_address req)
  then show ?thesis using client_role [of e n client_address req] by simp
next
  case (step_heartbeat_monitor e)
  then show ?thesis using heartbeat_monitor_role by auto
next
  case (step_heartbeat_sender e)
  then show ?thesis using heartbeat_sender_role [of e n] by simp
next
  case (step_backup_monitor e)
  then show ?thesis using backup_monitor_role [of e n] by simp
next
  case step_load_balancer_monitor
  then show ?thesis using load_balancer_monitor_role [of n] by simp
next
  case (step_performance_monitor e)
  then show ?thesis using performance_monitor_role [of e n] by simp
next
  case step_shutdown
  then show ?thesis by (simp add: shutdown_def)
qed

lemma steps_role:
  "node_step\<^sup>*\<^sup>* n n' \<Longrightarrow>
     (is_primary n \<longrightarrow> is_primary n') \<and> (\<not> is_backup n \<longrightarrow> \<not> is_backup n')"
proof (induction rule: rtranclp_induct)
  case base
  then show ?case by simp
next
  case (step y z)
  then show ?case using step_role [of y z] by blast
qed

text \<open>
  C9. Along every sequence of steps of a node (requests handled, iterations of the heartbeat
  monitor, the heartbeat sender, the backup monitor, the load-balancer monitor and the
  performance monitor, shutdown), a node that is Primary stays Primary, and its backup flag,
  once false, stays false: the only assignment to the role is the one of the failover,
  which the heartbeat monitor runs on a backup only.
\<close>

theorem primary_is_forever:
  "node_step\<^sup>*\<^sup>* n n' \<Longrightarrow> is_primary n \<Longrightarrow>
     is_primary n' \<and> (\<not> is_backup n \<longrightarrow> \<not> is_backup n')"
  using steps_role [of n n'] by simp

lemma promoted_is_primary: "is_primary promoted"
  by (simp add: promoted_def heartbeat_monitor_step_def backup0_fields backup0_not_primary
        initiate_failover_def)

theorem primary_is_forever_witness:
  "node_step\<^sup>*\<^sup>* backup0 promoted \<and> \<not> is_primary backup0
   \<and> node_step\<^sup>*\<^sup>* promoted promoted_next \<and> is_primary promoted
   \<and> is_primary promoted_next"
proof -
  have a: "node_step backup0 promoted"
    unfolding promoted_def by (rule step_heartbeat_monitor)
  have b: "node_step promoted promoted_next"
    unfolding promoted_next_def by (rule step_client)
  have c: "node_step\<^sup>*\<^sup>* promoted promoted_next"
    using b by (rule r_into_rtranclp)
  show ?thesis
    using primary_is_forever [OF c promoted_is_primary] a c promoted_is_primary
      backup0_not_primary
    by auto
qed

end
